theory Spec2Isabelle
  imports Main
begin

section \<open>DynamicJsonForm: a schema-driven JSON value editor\<close>

text \<open>
  A shallow embedding of \<^verbatim>\<open>client/src/components/DynamicJsonForm.tsx\<close>.
  The component's hooks state, the timer queue of the event loop and the log of the
  owner's \<^verbatim>\<open>onChange\<close> calls are one record that every handler takes and returns.
\<close>

subsection \<open>JSON values and schemas\<close>

text \<open>
  A JavaScript number. \<open>Dec m e\<close> is the finite value \<open>m * 10 ^ e\<close>, kept exactly as it
  was written: rounding to binary64 and the sign of zero are not represented.
\<close>

datatype jsnumber = NaN | PosInfinity | NegInfinity | Dec int int

datatype JsonValue =
    JUndefined
  | JNull
  | JBool bool
  | JNum jsnumber
  | JStr string
  | JArr "JsonValue list"
  | JObj "(string \<times> JsonValue) list"

datatype required_t = ReqBool bool | ReqList "string list"

text \<open>
  The fields of a schema node that the component reads. \<open>properties\<close> lists the declared
  properties in the order \<^verbatim>\<open>Object.entries\<close> enumerates them.
\<close>

datatype JsonSchemaType = JsonSchemaType
  (type: string)
  (properties: "(string \<times> JsonSchemaType) list option")
  (required: "required_t option")
  (enum: "string list option")
  (enumNames: "string list option")
  (format: "string option")
  (title: "string option")
  (description: "string option")

subsection \<open>The host: built-ins and imported utilities\<close>

text \<open>
  A value that a \<^verbatim>\<open>catch\<close> clause receives: an \<^verbatim>\<open>Error\<close> object with its
  message, or anything else.
\<close>

datatype thrown = Error string | NonError

text \<open>
  \<^verbatim>\<open>JSON.parse\<close>, \<^verbatim>\<open>JSON.stringify(v, null, n)\<close> and the two utilities the
  component imports from \<^verbatim>\<open>@/lib/utils/json\<close>. A function that can throw returns
  \<open>Inl\<close> of what it throws.
\<close>

record host =
  JSON_parse :: "string \<Rightarrow> thrown + JsonValue"
  JSON_stringify :: "JsonValue \<Rightarrow> nat \<Rightarrow> string"
  updateValueAtPath :: "JsonValue \<Rightarrow> string list \<Rightarrow> JsonValue \<Rightarrow> thrown + JsonValue"
  generateDefaultValue :: "JsonSchemaType \<Rightarrow> JsonValue"

text \<open>The props of the component; \<^verbatim>\<open>maxDepth\<close> is optional and defaults to \<open>3\<close>.\<close>

record props =
  schema :: JsonSchemaType
  "value" :: JsonValue
  maxDepth :: "nat option"

definition maxDepthOf :: "props \<Rightarrow> nat" where
  "maxDepthOf p = (case maxDepth p of Some d \<Rightarrow> d | None \<Rightarrow> 3)"

subsection \<open>State\<close>

text \<open>
  \<open>isJsonMode\<close>, \<open>jsonError\<close>, \<open>rawJsonValue\<close> are the three \<^verbatim>\<open>useState\<close> cells and
  \<open>timeoutRef\<close> is the \<^verbatim>\<open>useRef\<close> cell. The rest is the world the component acts
  on: the clock in milliseconds, the pending timers of the event loop (handle, due time
  and the \<^verbatim>\<open>jsonString\<close> their callback closes over), the next timer handle, the
  owner's \<^verbatim>\<open>onChange\<close> calls with the time of each call, and what was written with
  \<^verbatim>\<open>console.error\<close>.
\<close>

record state =
  isJsonMode :: bool
  jsonError :: "string option"
  rawJsonValue :: string
  timeoutRef :: "nat option"
  now :: nat
  timers :: "(nat \<times> nat \<times> string) list"
  nextTimer :: nat
  calls :: "(nat \<times> JsonValue) list"
  console :: "(string \<times> thrown) list"
  mounted :: bool

definition onChange :: "JsonValue \<Rightarrow> state \<Rightarrow> state" where
  "onChange v s = s\<lparr>calls := calls s @ [(now s, v)]\<rparr>"

definition setJsonError :: "string option \<Rightarrow> state \<Rightarrow> state" where
  "setJsonError e s = s\<lparr>jsonError := e\<rparr>"

definition setRawJsonValue :: "string \<Rightarrow> state \<Rightarrow> state" where
  "setRawJsonValue t s = s\<lparr>rawJsonValue := t\<rparr>"

definition setIsJsonMode :: "bool \<Rightarrow> state \<Rightarrow> state" where
  "setIsJsonMode b s = s\<lparr>isJsonMode := b\<rparr>"

definition console_error :: "string \<Rightarrow> thrown \<Rightarrow> state \<Rightarrow> state" where
  "console_error msg err s = s\<lparr>console := console s @ [(msg, err)]\<rparr>"

text \<open>\<^verbatim>\<open>err instanceof Error ? err.message : "Invalid JSON"\<close>\<close>

definition errorMessage :: "thrown \<Rightarrow> string" where
  "errorMessage err = (case err of Error m \<Rightarrow> m | NonError \<Rightarrow> ''Invalid JSON'')"

text \<open>\<^verbatim>\<open>a ?? b\<close>\<close>

definition nullish :: "JsonValue \<Rightarrow> JsonValue \<Rightarrow> JsonValue" where
  "nullish a b = (if a = JUndefined \<or> a = JNull then b else a)"

subsection \<open>isSimpleObject\<close>

definition supportedTypes :: "string list" where
  "supportedTypes = [''string'', ''number'', ''integer'', ''boolean'', ''null'']"

definition isSimpleObject :: "JsonSchemaType \<Rightarrow> bool" where
  "isSimpleObject sch =
     (if type sch \<in> set supportedTypes then True
      else if type sch \<noteq> ''object'' then False
      else list_all (\<lambda>prop. type prop \<in> set supportedTypes)
             (map snd (case properties sch of None \<Rightarrow> [] | Some ps \<Rightarrow> ps)))"

subsection \<open>String.prototype.trim\<close>

text \<open>
  Strings are byte sequences (UTF-8). \<^verbatim>\<open>trim\<close> removes WhiteSpace and LineTerminator
  code points from both ends: U+0009..U+000D, U+0020, and in their UTF-8 form U+00A0,
  U+1680, U+2000..U+200A, U+2028, U+2029, U+202F, U+205F, U+3000 and U+FEFF.
\<close>

definition isWs1 :: "char \<Rightarrow> bool" where
  "isWs1 a = (a \<in> {CHR 0x09, CHR 0x0A, CHR 0x0B, CHR 0x0C, CHR 0x0D, CHR 0x20})"

definition isWs2 :: "char \<Rightarrow> char \<Rightarrow> bool" where
  "isWs2 a b = (a = CHR 0xC2 \<and> b = CHR 0xA0)"

definition isWs3 :: "char \<Rightarrow> char \<Rightarrow> char \<Rightarrow> bool" where
  "isWs3 a b c =
     ((a = CHR 0xE1 \<and> b = CHR 0x9A \<and> c = CHR 0x80) \<or>
      (a = CHR 0xE2 \<and> b = CHR 0x80 \<and>
         (c \<in> {CHR 0x80, CHR 0x81, CHR 0x82, CHR 0x83, CHR 0x84, CHR 0x85, CHR 0x86,
                CHR 0x87, CHR 0x88, CHR 0x89, CHR 0x8A, CHR 0xA8, CHR 0xA9, CHR 0xAF})) \<or>
      (a = CHR 0xE2 \<and> b = CHR 0x81 \<and> c = CHR 0x9F) \<or>
      (a = CHR 0xE3 \<and> b = CHR 0x80 \<and> c = CHR 0x80) \<or>
      (a = CHR 0xEF \<and> b = CHR 0xBB \<and> c = CHR 0xBF))"

fun trimStart :: "string \<Rightarrow> string" where
  "trimStart (a # b # c # r) =
     (if isWs1 a then trimStart (b # c # r)
      else if isWs2 a b then trimStart (c # r)
      else if isWs3 a b c then trimStart r
      else a # b # c # r)"
| "trimStart [a, b] =
     (if isWs1 a then trimStart [b] else if isWs2 a b then [] else [a, b])"
| "trimStart [a] = (if isWs1 a then [] else [a])"
| "trimStart [] = []"

text \<open>The same scan from the end, on the reversed text.\<close>

fun trimStartRev :: "string \<Rightarrow> string" where
  "trimStartRev (c # b # a # r) =
     (if isWs1 c then trimStartRev (b # a # r)
      else if isWs2 b c then trimStartRev (a # r)
      else if isWs3 a b c then trimStartRev r
      else c # b # a # r)"
| "trimStartRev [c, b] =
     (if isWs1 c then trimStartRev [b] else if isWs2 b c then [] else [c, b])"
| "trimStartRev [c] = (if isWs1 c then [] else [c])"
| "trimStartRev [] = []"

definition trimEnd :: "string \<Rightarrow> string" where
  "trimEnd t = rev (trimStartRev (rev t))"

definition trim :: "string \<Rightarrow> string" where
  "trim t = trimEnd (trimStart t)"

subsection \<open>Timers and the debounced parse\<close>

definition clearTimeout :: "nat \<Rightarrow> state \<Rightarrow> state" where
  "clearTimeout h s = s\<lparr>timers := filter (\<lambda>tm. fst tm \<noteq> h) (timers s)\<rparr>"

text \<open>
  \<^verbatim>\<open>setTimeout(cb, delay)\<close> for the one callback the component schedules, which
  closes over \<open>jsonString\<close>; it returns the new handle.
\<close>

definition setTimeout :: "string \<Rightarrow> nat \<Rightarrow> state \<Rightarrow> nat \<times> state" where
  "setTimeout jsonString delay s =
     (nextTimer s,
      s\<lparr>timers := timers s @ [(nextTimer s, now s + delay, jsonString)],
        nextTimer := Suc (nextTimer s)\<rparr>)"

text \<open>The body of the scheduled callback: a failed parse is swallowed.\<close>

definition timerCallback :: "host \<Rightarrow> string \<Rightarrow> state \<Rightarrow> state" where
  "timerCallback H jsonString s =
     (case JSON_parse H jsonString of
        Inr parsed \<Rightarrow> setJsonError None (onChange parsed s)
      | Inl err \<Rightarrow> s)"

text \<open>A handle is truthy when it is not \<open>0\<close>.\<close>

definition debouncedUpdateParent :: "string \<Rightarrow> state \<Rightarrow> state" where
  "debouncedUpdateParent jsonString s =
     (let s1 = (case timeoutRef s of
                  Some h \<Rightarrow> if h \<noteq> 0 then clearTimeout h s else s
                | None \<Rightarrow> s);
          (h', s2) = setTimeout jsonString 300 s1
      in s2\<lparr>timeoutRef := Some h'\<rparr>)"

fun runTimers :: "host \<Rightarrow> (nat \<times> nat \<times> string) list \<Rightarrow> state \<Rightarrow> state" where
  "runTimers H [] s = s"
| "runTimers H (tm # tms) s = runTimers H tms (timerCallback H (snd (snd tm)) s)"

text \<open>
  \<open>d\<close> milliseconds pass; then the event loop runs every timer that is due, oldest
  first. A callback never runs before its due time, and may run later.
\<close>

definition elapse :: "host \<Rightarrow> nat \<Rightarrow> state \<Rightarrow> state" where
  "elapse H d s =
     (let t = now s + d;
          ready = filter (\<lambda>tm. fst (snd tm) \<le> t) (timers s);
          waiting = filter (\<lambda>tm. \<not> fst (snd tm) \<le> t) (timers s)
      in runTimers H ready (s\<lparr>now := t, timers := waiting\<rparr>))"

subsection \<open>Mode switch and Format\<close>

definition handleSwitchToFormMode :: "host \<Rightarrow> props \<Rightarrow> state \<Rightarrow> state" where
  "handleSwitchToFormMode H p s =
     (if isJsonMode s then
        (case JSON_parse H (rawJsonValue s) of
           Inr parsed \<Rightarrow> setIsJsonMode False (onChange parsed s)
         | Inl err \<Rightarrow> setJsonError (Some (errorMessage err)) s)
      else
        setIsJsonMode True
          (setRawJsonValue
             (JSON_stringify H (nullish (value p) (generateDefaultValue H (schema p))) 2) s))"

definition formatJson :: "host \<Rightarrow> state \<Rightarrow> state" where
  "formatJson H s =
     (let jsonStr = trim (rawJsonValue s) in
      if jsonStr = [] then s
      else
        (case JSON_parse H jsonStr of
           Inr parsed \<Rightarrow>
             (let formatted = JSON_stringify H parsed 2
              in setJsonError None
                   (debouncedUpdateParent formatted (setRawJsonValue formatted s)))
         | Inl err \<Rightarrow> setJsonError (Some (errorMessage err)) s))"

subsection \<open>Commit\<close>

definition handleFieldChange ::
  "host \<Rightarrow> props \<Rightarrow> string list \<Rightarrow> JsonValue \<Rightarrow> state \<Rightarrow> state" where
  "handleFieldChange H p path fieldValue s =
     (if length path = 0 then onChange fieldValue s
      else
        (case updateValueAtPath H (value p) path fieldValue of
           Inr newValue \<Rightarrow> onChange newValue s
         | Inl err \<Rightarrow>
             onChange (value p) (console_error ''Failed to update form value:'' err s)))"

subsection \<open>Number(text)\<close>

text \<open>
  The conversion of a string to a number (StringToNumber): surrounding white space is
  dropped, the empty text is \<open>0\<close>, then a signed decimal literal, \<^verbatim>\<open>Infinity\<close> or an
  unsigned literal in base 16, 8 or 2; any other text is \<open>NaN\<close>.
\<close>

definition isDigit :: "char \<Rightarrow> bool" where
  "isDigit c = (48 \<le> (of_char c :: nat) \<and> (of_char c :: nat) \<le> 57)"

definition hexValue :: "char \<Rightarrow> nat option" where
  "hexValue c =
     (let n = (of_char c :: nat) in
      if 48 \<le> n \<and> n \<le> 57 then Some (n - 48)
      else if 97 \<le> n \<and> n \<le> 102 then Some (n - 87)
      else if 65 \<le> n \<and> n \<le> 70 then Some (n - 55)
      else None)"

definition isRadixDigit :: "nat \<Rightarrow> char \<Rightarrow> bool" where
  "isRadixDigit base c = (case hexValue c of Some v \<Rightarrow> v < base | None \<Rightarrow> False)"

definition natOfDigits :: "nat \<Rightarrow> string \<Rightarrow> nat" where
  "natOfDigits base ds =
     foldl (\<lambda>a c. base * a + (case hexValue c of Some v \<Rightarrow> v | None \<Rightarrow> 0)) 0 ds"

fun stripZeros :: "nat \<Rightarrow> nat \<Rightarrow> nat \<times> nat" where
  "stripZeros n k =
     (if n = 0 \<or> n mod 10 \<noteq> 0 then (n, k) else stripZeros (n div 10) (Suc k))"

text \<open>The number \<open>m * 10 ^ e\<close> with the trailing zeros of \<open>m\<close> moved into the exponent.\<close>

definition mkDec :: "int \<Rightarrow> int \<Rightarrow> jsnumber" where
  "mkDec m e =
     (if m = 0 then Dec 0 0
      else (let (n, k) = stripZeros (nat \<bar>m\<bar>) 0
            in Dec (sgn m * int n) (e + int k)))"

definition negate :: "jsnumber \<Rightarrow> jsnumber" where
  "negate x =
     (case x of NaN \<Rightarrow> NaN | PosInfinity \<Rightarrow> NegInfinity | NegInfinity \<Rightarrow> PosInfinity
      | Dec m e \<Rightarrow> Dec (- m) e)"

definition exponentPart :: "string \<Rightarrow> int option" where
  "exponentPart r =
     (case r of
        [] \<Rightarrow> Some 0
      | c # t \<Rightarrow>
          if c = CHR ''e'' \<or> c = CHR ''E'' then
            (let (neg, ds) =
                   (case t of
                      [] \<Rightarrow> (False, t)
                    | x # u \<Rightarrow>
                        if x = CHR ''-'' then (True, u)
                        else if x = CHR ''+'' then (False, u)
                        else (False, t))
             in if ds \<noteq> [] \<and> list_all isDigit ds
                then Some ((if neg then - 1 else 1) * int (natOfDigits 10 ds))
                else None)
          else None)"

definition unsignedDecimal :: "string \<Rightarrow> jsnumber" where
  "unsignedDecimal t =
     (if t = ''Infinity'' then PosInfinity
      else
        (let ip = takeWhile isDigit t;
             r1 = dropWhile isDigit t;
             (fp, r2) =
               (case r1 of
                  [] \<Rightarrow> ([], r1)
                | c # u \<Rightarrow>
                    if c = CHR ''.'' then (takeWhile isDigit u, dropWhile isDigit u)
                    else ([], r1))
         in if ip = [] \<and> fp = [] then NaN
            else
              (case exponentPart r2 of
                 None \<Rightarrow> NaN
               | Some ex \<Rightarrow> mkDec (int (natOfDigits 10 (ip @ fp))) (ex - int (length fp)))))"

definition nonDecimal :: "string \<Rightarrow> jsnumber option" where
  "nonDecimal t =
     (case t of
        z # x # ds \<Rightarrow>
          (let base =
                 (if x = CHR ''x'' \<or> x = CHR ''X'' then 16
                  else if x = CHR ''o'' \<or> x = CHR ''O'' then 8
                  else if x = CHR ''b'' \<or> x = CHR ''B'' then 2
                  else 0)
           in if z = CHR ''0'' \<and> base \<noteq> 0 \<and> ds \<noteq> [] \<and> list_all (isRadixDigit base) ds
              then Some (mkDec (int (natOfDigits base ds)) 0)
              else None)
      | _ \<Rightarrow> None)"

definition Number :: "string \<Rightarrow> jsnumber" where
  "Number str =
     (let t = trim str in
      if t = [] then Dec 0 0
      else
        (case nonDecimal t of
           Some n \<Rightarrow> n
         | None \<Rightarrow>
             (if hd t = CHR ''+'' then unsignedDecimal (tl t)
              else if hd t = CHR ''-'' then negate (unsignedDecimal (tl t))
              else unsignedDecimal t)))"

definition isNaN :: "jsnumber \<Rightarrow> bool" where
  "isNaN x = (x = NaN)"

text \<open>\<^verbatim>\<open>Number.isInteger\<close>: a finite number without a fractional part.\<close>

definition isInteger :: "jsnumber \<Rightarrow> bool" where
  "isInteger x =
     (case x of Dec m e \<Rightarrow> 0 \<le> e \<or> m mod 10 ^ nat (- e) = 0 | _ \<Rightarrow> False)"

subsection \<open>Rendering\<close>

text \<open>
  What a render returns, reduced to the controls and their event handlers. A handler
  takes what the event carries (\<^verbatim>\<open>e.target.value\<close>, \<^verbatim>\<open>e.target.checked\<close> or the
  editor's new text) and transforms the state. Presentational attributes (class names,
  placeholders, the displayed value of an input, length and range limits) are left out.
\<close>

datatype ui =
    RenderNull
  | JsonEditor string "string \<Rightarrow> state \<Rightarrow> state" "string option"
  | Select "(string \<times> string) list" "string \<Rightarrow> state \<Rightarrow> state" bool
  | Input string "string \<Rightarrow> state \<Rightarrow> state" bool
  | Checkbox "bool \<Rightarrow> state \<Rightarrow> state" bool
  | FieldList "(string \<times> string \<times> bool \<times> ui) list"
  | SimplifiedView string

text \<open>The \<^verbatim>\<open>onChange\<close> of the enum select and of the text input.\<close>

definition string_onChange ::
  "host \<Rightarrow> props \<Rightarrow> string list \<Rightarrow> bool \<Rightarrow> string \<Rightarrow> state \<Rightarrow> state" where
  "string_onChange H p path fieldRequired val s =
     (if val = [] \<and> \<not> fieldRequired then handleFieldChange H p path JUndefined s
      else handleFieldChange H p path (JStr val) s)"

text \<open>The \<^verbatim>\<open>onChange\<close> of the number input.\<close>

definition number_onChange ::
  "host \<Rightarrow> props \<Rightarrow> string list \<Rightarrow> bool \<Rightarrow> string \<Rightarrow> state \<Rightarrow> state" where
  "number_onChange H p path fieldRequired val s =
     (if val = [] \<and> \<not> fieldRequired then handleFieldChange H p path JUndefined s
      else
        (let num = Number val in
         if \<not> isNaN num then handleFieldChange H p path (JNum num) s else s))"

text \<open>The \<^verbatim>\<open>onChange\<close> of the integer input.\<close>

definition integer_onChange ::
  "host \<Rightarrow> props \<Rightarrow> string list \<Rightarrow> bool \<Rightarrow> string \<Rightarrow> state \<Rightarrow> state" where
  "integer_onChange H p path fieldRequired val s =
     (if val = [] \<and> \<not> fieldRequired then handleFieldChange H p path JUndefined s
      else
        (let num = Number val in
         if \<not> isNaN num \<and> isInteger num then handleFieldChange H p path (JNum num) s
         else s))"

definition boolean_onChange ::
  "host \<Rightarrow> props \<Rightarrow> string list \<Rightarrow> bool \<Rightarrow> state \<Rightarrow> state" where
  "boolean_onChange H p path checked s = handleFieldChange H p path (JBool checked) s"

text \<open>The \<^verbatim>\<open>onChange\<close> of the editor that stands for a subtree at the depth limit.\<close>

definition nested_onChange ::
  "host \<Rightarrow> props \<Rightarrow> string list \<Rightarrow> string \<Rightarrow> state \<Rightarrow> state" where
  "nested_onChange H p path newValue s =
     (case JSON_parse H newValue of
        Inr parsed \<Rightarrow> setJsonError None (handleFieldChange H p path parsed s)
      | Inl err \<Rightarrow> setJsonError (Some (errorMessage err)) s)"

definition inputType :: "string option \<Rightarrow> string" where
  "inputType fmt =
     (if fmt = Some ''email'' then ''email''
      else if fmt = Some ''uri'' then ''url''
      else if fmt = Some ''date'' then ''date''
      else if fmt = Some ''date-time'' then ''datetime-local''
      else ''text'')"

text \<open>\<^verbatim>\<open>propSchema.enumNames?.[index] || option\<close>\<close>

definition optionLabel :: "string list option \<Rightarrow> nat \<Rightarrow> string \<Rightarrow> string" where
  "optionLabel names i opt =
     (case names of
        None \<Rightarrow> opt
      | Some ns \<Rightarrow> if i < length ns \<and> ns ! i \<noteq> [] then ns ! i else opt)"

definition renderFieldInput ::
  "host \<Rightarrow> props \<Rightarrow> JsonSchemaType \<Rightarrow> JsonValue \<Rightarrow> string list \<Rightarrow> bool \<Rightarrow> ui" where
  "renderFieldInput H p propSchema currentValue path fieldRequired =
     (if type propSchema = ''string'' then
        (case enum propSchema of
           Some options \<Rightarrow>
             Select
               (([], ''Select an option...'') #
                  map (\<lambda>(i, opt). (opt, optionLabel (enumNames propSchema) i opt))
                    (enumerate 0 options))
               (string_onChange H p path fieldRequired) fieldRequired
         | None \<Rightarrow>
             Input (inputType (format propSchema))
               (string_onChange H p path fieldRequired) fieldRequired)
      else if type propSchema = ''number'' then
        Input ''number'' (number_onChange H p path fieldRequired) fieldRequired
      else if type propSchema = ''integer'' then
        Input ''number'' (integer_onChange H p path fieldRequired) fieldRequired
      else if type propSchema = ''boolean'' then
        Checkbox (boolean_onChange H p path) fieldRequired
      else RenderNull)"

text \<open>\<open>isFieldRequired\<close> reads the \<^verbatim>\<open>required\<close> of the component's own schema prop.\<close>

definition isFieldRequired :: "props \<Rightarrow> string list \<Rightarrow> bool" where
  "isFieldRequired p fieldPath =
     (case required (schema p) of
        Some (ReqBool b) \<Rightarrow> b
      | Some (ReqList names) \<Rightarrow>
          if length fieldPath > 0 then last fieldPath \<in> set names else False
      | None \<Rightarrow> False)"

text \<open>
  \<^verbatim>\<open>objectValue[fieldName]\<close> with \<^verbatim>\<open>objectValue = currentValue || {}\<close>: the own
  property of an object value, \<^verbatim>\<open>undefined\<close> otherwise.
\<close>

definition fieldValueOf :: "JsonValue \<Rightarrow> string \<Rightarrow> JsonValue" where
  "fieldValueOf currentValue fieldName =
     (case currentValue of
        JObj kvs \<Rightarrow> (case map_of kvs fieldName of Some v \<Rightarrow> v | None \<Rightarrow> JUndefined)
      | _ \<Rightarrow> JUndefined)"

text \<open>\<^verbatim>\<open>fieldSchema.title || fieldName\<close>\<close>

definition fieldLabel :: "JsonSchemaType \<Rightarrow> string \<Rightarrow> string" where
  "fieldLabel fieldSchema fieldName =
     (case title fieldSchema of Some t \<Rightarrow> if t \<noteq> [] then t else fieldName | None \<Rightarrow> fieldName)"

definition renderFormFields ::
  "host \<Rightarrow> props \<Rightarrow> state \<Rightarrow> JsonSchemaType \<Rightarrow> JsonValue \<Rightarrow> string list \<Rightarrow> nat \<Rightarrow> ui" where
  "renderFormFields H p s propSchema currentValue path depth =
     (if depth \<ge> maxDepthOf p \<and> (type propSchema = ''object'' \<or> type propSchema = ''array'') then
        JsonEditor
          (JSON_stringify H (nullish currentValue (generateDefaultValue H propSchema)) 2)
          (nested_onChange H p path)
          (jsonError s)
      else
        (case (if type propSchema = ''object'' then properties propSchema else None) of
           Some ps \<Rightarrow>
             FieldList
               (map (\<lambda>(fieldName, fieldSchema).
                       (let fieldPath = path @ [fieldName];
                            fieldValue = fieldValueOf currentValue fieldName;
                            fieldRequired = isFieldRequired p [fieldName]
                        in (fieldName, fieldLabel fieldSchema fieldName, fieldRequired,
                            renderFieldInput H p fieldSchema fieldValue fieldPath fieldRequired)))
                  ps)
         | None \<Rightarrow>
             renderFieldInput H p propSchema currentValue path (isFieldRequired p path)))"

subsection \<open>The component\<close>

definition isOnlyJSON :: "props \<Rightarrow> bool" where
  "isOnlyJSON p = (\<not> isSimpleObject (schema p))"

definition shouldUseJsonMode :: "props \<Rightarrow> bool" where
  "shouldUseJsonMode p =
     (type (schema p) = ''object'' \<and>
      (case properties (schema p) of None \<Rightarrow> True | Some ps \<Rightarrow> length (map fst ps) = 0))"

text \<open>The effect with dependencies \<^verbatim>\<open>[value, schema]\<close>.\<close>

definition syncEffect :: "host \<Rightarrow> props \<Rightarrow> state \<Rightarrow> state" where
  "syncEffect H p s =
     setRawJsonValue
       (JSON_stringify H (nullish (value p) (generateDefaultValue H (schema p))) 2) s"

text \<open>The effect with dependencies \<^verbatim>\<open>[shouldUseJsonMode, isJsonMode]\<close>.\<close>

definition modeEffect :: "props \<Rightarrow> state \<Rightarrow> state" where
  "modeEffect p s =
     (if shouldUseJsonMode p \<and> \<not> isJsonMode s then setIsJsonMode True s else s)"

text \<open>The state of the first render, at time \<open>0\<close> with no timer pending.\<close>

definition initialState :: "host \<Rightarrow> props \<Rightarrow> state" where
  "initialState H p =
     \<lparr>isJsonMode = isOnlyJSON p,
      jsonError = None,
      rawJsonValue =
        JSON_stringify H (nullish (value p) (generateDefaultValue H (schema p))) 2,
      timeoutRef = None,
      now = 0, timers = [], nextTimer = 1, calls = [], console = [], mounted = True\<rparr>"

definition mount :: "host \<Rightarrow> props \<Rightarrow> state" where
  "mount H p = modeEffect p (syncEffect H p (initialState H p))"

text \<open>The \<^verbatim>\<open>onChange\<close> of the top-level editor in raw-text mode.\<close>

definition editor_onChange :: "string \<Rightarrow> state \<Rightarrow> state" where
  "editor_onChange newValue s = debouncedUpdateParent newValue (setRawJsonValue newValue s)"

text \<open>
  \<^verbatim>\<open>typeof value !== "object" || value === null || Object.keys(value).length === 0\<close>
\<close>

definition notAnObjectOrEmpty :: "JsonValue \<Rightarrow> bool" where
  "notAnObjectOrEmpty v =
     (case v of JObj kvs \<Rightarrow> length kvs = 0 | JArr xs \<Rightarrow> length xs = 0 | _ \<Rightarrow> True)"

record view =
  formatButton :: bool
  switchButton :: "string option"
  body :: ui

definition render :: "host \<Rightarrow> props \<Rightarrow> state \<Rightarrow> view" where
  "render H p s =
     \<lparr>formatButton = isJsonMode s,
      switchButton =
        (if \<not> isOnlyJSON p
         then Some (if isJsonMode s then ''Switch to Form'' else ''Switch to JSON'')
         else None),
      body =
        (if isJsonMode s then JsonEditor (rawJsonValue s) editor_onChange (jsonError s)
         else if type (schema p) = ''object'' \<and> notAnObjectOrEmpty (value p) \<and>
                 rawJsonValue s \<noteq> [] \<and> rawJsonValue s \<noteq> ''{}''
         then SimplifiedView (rawJsonValue s)
         else renderFormFields H p s (schema p) (value p) [] 0)\<rparr>"

text \<open>
  Teardown runs the cleanup functions the effects returned. Neither effect returns one,
  so nothing but the instance itself goes away.
\<close>

definition unmount :: "state \<Rightarrow> state" where
  "unmount s = s\<lparr>mounted := False\<rparr>"

subsection \<open>Events\<close>

text \<open>
  What can happen to a mounted instance with fixed props: the user edits the top-level
  editor, clicks Format or the mode switch, commits a leaf through \<open>handleFieldChange\<close>,
  edits a depth-limited editor, time passes, or the instance is torn down. A control
  that is not rendered receives no event, and every state change is followed by the
  mode effect of the next render.
\<close>

datatype event =
    Edit string
  | ClickFormat
  | ClickSwitch
  | Commit "string list" JsonValue
  | NestedEdit "string list" string
  | Elapse nat
  | Unmount

definition step :: "host \<Rightarrow> props \<Rightarrow> event \<Rightarrow> state \<Rightarrow> state" where
  "step H p ev s =
     (case ev of
        Elapse d \<Rightarrow> (if mounted s then modeEffect p (elapse H d s) else elapse H d s)
      | Unmount \<Rightarrow> unmount s
      | Edit t \<Rightarrow>
          if mounted s \<and> isJsonMode s then modeEffect p (editor_onChange t s) else s
      | ClickFormat \<Rightarrow>
          if mounted s \<and> isJsonMode s then modeEffect p (formatJson H s) else s
      | ClickSwitch \<Rightarrow>
          if mounted s \<and> \<not> isOnlyJSON p then modeEffect p (handleSwitchToFormMode H p s) else s
      | Commit path v \<Rightarrow>
          if mounted s \<and> \<not> isJsonMode s then modeEffect p (handleFieldChange H p path v s) else s
      | NestedEdit path t \<Rightarrow>
          if mounted s \<and> \<not> isJsonMode s then modeEffect p (nested_onChange H p path t s) else s)"

definition run :: "host \<Rightarrow> props \<Rightarrow> event list \<Rightarrow> state \<Rightarrow> state" where
  "run H p evs s = foldl (\<lambda>st ev. step H p ev st) s evs"

section \<open>A reference host\<close>

text \<open>
  The component is defined over any host. This section gives one: \<^verbatim>\<open>JSON.parse\<close> and
  \<^verbatim>\<open>JSON.stringify\<close> after ECMA-262, with strings as UTF-8 byte sequences and numbers
  as exact decimals. The wording of a \<^verbatim>\<open>SyntaxError\<close> message is the engine's own;
  here it names the offending position.
\<close>

subsection \<open>Number to text\<close>

fun digitsOf :: "nat \<Rightarrow> string" where
  "digitsOf n =
     (if n < 10 then [char_of (48 + n)]
      else digitsOf (n div 10) @ [char_of (48 + n mod 10)])"

text \<open>
  Number::toString for a finite value \<open>m * 10 ^ e\<close>: with \<open>k\<close> significant digits and the
  decimal point after digit \<open>n\<close>, plain notation for \<open>-6 < n \<le> 21\<close> and exponent notation
  otherwise.
\<close>

definition decToString :: "int \<Rightarrow> int \<Rightarrow> string" where
  "decToString m e =
     (if m = 0 then ''0''
      else
        (let (sig, z) = stripZeros (nat \<bar>m\<bar>) 0;
             ds = digitsOf sig;
             k = int (length ds);
             n = k + e + int z;
             body =
               (if k \<le> n \<and> n \<le> 21 then ds @ replicate (nat (n - k)) CHR ''0''
                else if 0 < n \<and> n \<le> 21 then take (nat n) ds @ ''.'' @ drop (nat n) ds
                else if - 6 < n \<and> n \<le> 0 then ''0.'' @ replicate (nat (- n)) CHR ''0'' @ ds
                else
                  (if k = 1 then ds else take 1 ds @ ''.'' @ drop 1 ds) @ ''e'' @
                  (if n - 1 < 0 then ''-'' else ''+'') @ digitsOf (nat \<bar>n - 1\<bar>))
         in (if m < 0 then ''-'' else []) @ body))"

subsection \<open>JSON.stringify\<close>

definition hexDigit :: "nat \<Rightarrow> char" where
  "hexDigit n = (if n < 10 then char_of (48 + n) else char_of (87 + n))"

text \<open>
  QuoteJSONString without the surrounding quotes. A lone surrogate, which UTF-8 can only
  hold in the generalised three-byte form \<open>ED A0..BF xx\<close>, is written as an escape.
\<close>

fun quoteChars :: "string \<Rightarrow> string" where
  "quoteChars [] = []"
| "quoteChars (c # cs) =
     (let n = (of_char c :: nat) in
      if n = 237 \<and> length cs \<ge> 2 \<and> 160 \<le> (of_char (hd cs) :: nat) then
        (let a = (of_char (hd cs) :: nat); b = (of_char (hd (tl cs)) :: nat)
         in [CHR 0x5C, CHR ''u'', CHR ''d'', hexDigit ((a div 4) mod 16),
             hexDigit ((a mod 4) * 4 + (b div 16) mod 4), hexDigit (b mod 16)] @
            quoteChars (tl (tl cs)))
      else if n = 34 then [CHR 0x5C, CHR 0x22] @ quoteChars cs
      else if n = 92 then [CHR 0x5C, CHR 0x5C] @ quoteChars cs
      else if n = 8 then [CHR 0x5C, CHR ''b''] @ quoteChars cs
      else if n = 12 then [CHR 0x5C, CHR ''f''] @ quoteChars cs
      else if n = 10 then [CHR 0x5C, CHR ''n''] @ quoteChars cs
      else if n = 13 then [CHR 0x5C, CHR ''r''] @ quoteChars cs
      else if n = 9 then [CHR 0x5C, CHR ''t''] @ quoteChars cs
      else if n < 32 then
        [CHR 0x5C, CHR ''u'', CHR ''0'', CHR ''0'', hexDigit (n div 16), hexDigit (n mod 16)] @
        quoteChars cs
      else c # quoteChars cs)"

definition quoteJSONString :: "string \<Rightarrow> string" where
  "quoteJSONString t = [CHR 0x22] @ quoteChars t @ [CHR 0x22]"

fun joinWith :: "string \<Rightarrow> string list \<Rightarrow> string" where
  "joinWith sep [] = []"
| "joinWith sep [x] = x"
| "joinWith sep (x # y # ys) = x @ sep @ joinWith sep (y # ys)"

definition wrapItems :: "string \<Rightarrow> string \<Rightarrow> string \<Rightarrow> string \<Rightarrow> string list \<Rightarrow> string" where
  "wrapItems opening closing gap indent items =
     (if items = [] then opening @ closing
      else if gap = [] then opening @ joinWith '','' items @ closing
      else opening @ [CHR 0x0A] @ (indent @ gap) @
           joinWith ('','' @ [CHR 0x0A] @ (indent @ gap)) items @
           [CHR 0x0A] @ indent @ closing)"

text \<open>
  SerializeJSONProperty: \<open>None\<close> is \<^verbatim>\<open>undefined\<close>. An undefined array element is
  written \<^verbatim>\<open>null\<close>, an undefined property is left out.
\<close>

fun serialize :: "string \<Rightarrow> string \<Rightarrow> JsonValue \<Rightarrow> string option"
  and serializeElements :: "string \<Rightarrow> string \<Rightarrow> JsonValue list \<Rightarrow> string list"
  and serializeMembers :: "string \<Rightarrow> string \<Rightarrow> (string \<times> JsonValue) list \<Rightarrow> string list"
where
  "serialize gap indent JUndefined = None"
| "serialize gap indent JNull = Some ''null''"
| "serialize gap indent (JBool b) = Some (if b then ''true'' else ''false'')"
| "serialize gap indent (JNum x) =
     Some (case x of Dec m e \<Rightarrow> decToString m e | _ \<Rightarrow> ''null'')"
| "serialize gap indent (JStr t) = Some (quoteJSONString t)"
| "serialize gap indent (JArr xs) =
     Some (wrapItems ''['' '']'' gap indent (serializeElements gap (indent @ gap) xs))"
| "serialize gap indent (JObj kvs) =
     Some (wrapItems ''{'' ''}'' gap indent (serializeMembers gap (indent @ gap) kvs))"
| "serializeElements gap indent [] = []"
| "serializeElements gap indent (x # xs) =
     (case serialize gap indent x of None \<Rightarrow> ''null'' | Some t \<Rightarrow> t) #
     serializeElements gap indent xs"
| "serializeMembers gap indent [] = []"
| "serializeMembers gap indent (kv # kvs) =
     (case serialize gap indent (snd kv) of
        None \<Rightarrow> []
      | Some t \<Rightarrow>
          [quoteJSONString (fst kv) @ '':'' @ (if gap = [] then [] else '' '') @ t]) @
     serializeMembers gap indent kvs"

text \<open>\<^verbatim>\<open>JSON.stringify(v, null, n)\<close>; \<open>None\<close> is \<^verbatim>\<open>undefined\<close>.\<close>

definition stringify :: "JsonValue \<Rightarrow> nat \<Rightarrow> string option" where
  "stringify v n = serialize (replicate (min 10 n) CHR '' '') [] v"

subsection \<open>JSON.parse\<close>

text \<open>
  The content of a string literal while it is read: a byte of the text, or the code unit
  of a \<^verbatim>\<open>\u\<close> escape. Two escapes that form a surrogate pair are one code point.
\<close>

datatype item = Raw char | Unit nat

definition utf8 :: "nat \<Rightarrow> string" where
  "utf8 n =
     (if n < 128 then [char_of n]
      else if n < 2048 then [char_of (192 + n div 64), char_of (128 + n mod 64)]
      else if n < 65536 then
        [char_of (224 + n div 4096), char_of (128 + (n div 64) mod 64), char_of (128 + n mod 64)]
      else
        [char_of (240 + n div 262144), char_of (128 + (n div 4096) mod 64),
         char_of (128 + (n div 64) mod 64), char_of (128 + n mod 64)])"

fun encodeItems :: "item list \<Rightarrow> string" where
  "encodeItems [] = []"
| "encodeItems (Raw c # r) = c # encodeItems r"
| "encodeItems (Unit hi # Unit lo # r) =
     (if 55296 \<le> hi \<and> hi < 56320 \<and> 56320 \<le> lo \<and> lo < 57344
      then utf8 (65536 + (hi - 55296) * 1024 + (lo - 56320)) @ encodeItems r
      else utf8 hi @ encodeItems (Unit lo # r))"
| "encodeItems (Unit n # r) = utf8 n @ encodeItems r"

datatype token =
    TLBrace | TRBrace | TLBracket | TRBracket | TColon | TComma
  | TString string
  | TScalar JsonValue
  | TInvalid
  | TUnterminated

datatype lexmode =
    Start
  | InString nat "item list"
  | InEscape nat "item list"
  | InUnicode nat "item list" "nat list"
  | InNumber nat string
  | InWord nat string

definition isJsonWs :: "char \<Rightarrow> bool" where
  "isJsonWs c = (c \<in> {CHR 0x20, CHR 0x09, CHR 0x0A, CHR 0x0D})"

definition isNumberChar :: "char \<Rightarrow> bool" where
  "isNumberChar c = (isDigit c \<or> c \<in> {CHR ''-'', CHR ''+'', CHR ''.'', CHR ''e'', CHR ''E''})"

definition isWordChar :: "char \<Rightarrow> bool" where
  "isWordChar c = (97 \<le> (of_char c :: nat) \<and> (of_char c :: nat) \<le> 122)"

text \<open>The number grammar of JSON: no leading zeros, digits on both sides of the point.\<close>

definition jsonNumber :: "string \<Rightarrow> jsnumber option" where
  "jsonNumber t =
     (let neg = (t \<noteq> [] \<and> hd t = CHR ''-'');
          r0 = (if neg then tl t else t);
          ip = takeWhile isDigit r0;
          r1 = dropWhile isDigit r0;
          hasPoint = (r1 \<noteq> [] \<and> hd r1 = CHR ''.'');
          fp = (if hasPoint then takeWhile isDigit (tl r1) else []);
          r2 = (if hasPoint then dropWhile isDigit (tl r1) else r1)
      in if ip = [] \<or> (length ip > 1 \<and> hd ip = CHR ''0'') \<or> (hasPoint \<and> fp = []) then None
         else
           (case exponentPart r2 of
              None \<Rightarrow> None
            | Some ex \<Rightarrow>
                Some (mkDec ((if neg then - 1 else 1) * int (natOfDigits 10 (ip @ fp)))
                        (ex - int (length fp)))))"

definition numberToken :: "string \<Rightarrow> token" where
  "numberToken t = (case jsonNumber t of Some x \<Rightarrow> TScalar (JNum x) | None \<Rightarrow> TInvalid)"

definition wordToken :: "string \<Rightarrow> token" where
  "wordToken w =
     (if w = ''true'' then TScalar (JBool True)
      else if w = ''false'' then TScalar (JBool False)
      else if w = ''null'' then TScalar JNull
      else TInvalid)"

definition simpleEscape :: "char \<Rightarrow> char option" where
  "simpleEscape c =
     (if c = CHR 0x22 \<or> c = CHR 0x5C \<or> c = CHR ''/'' then Some c
      else if c = CHR ''b'' then Some (CHR 0x08)
      else if c = CHR ''f'' then Some (CHR 0x0C)
      else if c = CHR ''n'' then Some (CHR 0x0A)
      else if c = CHR ''r'' then Some (CHR 0x0D)
      else if c = CHR ''t'' then Some (CHR 0x09)
      else None)"

text \<open>What a character does between tokens: the tokens it completes and the next mode.\<close>

definition onStart :: "nat \<Rightarrow> char \<Rightarrow> (nat \<times> token) list \<times> lexmode" where
  "onStart pos c =
     (if isJsonWs c then ([], Start)
      else if c = CHR ''{'' then ([(pos, TLBrace)], Start)
      else if c = CHR ''}'' then ([(pos, TRBrace)], Start)
      else if c = CHR ''['' then ([(pos, TLBracket)], Start)
      else if c = CHR '']'' then ([(pos, TRBracket)], Start)
      else if c = CHR '':'' then ([(pos, TColon)], Start)
      else if c = CHR '','' then ([(pos, TComma)], Start)
      else if c = CHR 0x22 then ([], InString pos [])
      else if c = CHR ''-'' \<or> isDigit c then ([], InNumber pos [c])
      else if isWordChar c then ([], InWord pos [c])
      else ([(pos, TInvalid)], Start))"

text \<open>
  The lexer reads one character at a time. A lexical error is a token of its own, so that
  the parser reports whichever error comes first in the text.
\<close>

fun lex :: "lexmode \<Rightarrow> nat \<Rightarrow> string \<Rightarrow> (nat \<times> token) list" where
  "lex Start pos [] = []"
| "lex (InString p acc) pos [] = [(pos, TUnterminated)]"
| "lex (InEscape p acc) pos [] = [(pos, TUnterminated)]"
| "lex (InUnicode p acc hs) pos [] = [(pos, TUnterminated)]"
| "lex (InNumber p acc) pos [] = [(p, numberToken acc)]"
| "lex (InWord p acc) pos [] = [(p, wordToken acc)]"
| "lex Start pos (c # cs) = fst (onStart pos c) @ lex (snd (onStart pos c)) (Suc pos) cs"
| "lex (InString p acc) pos (c # cs) =
     (if c = CHR 0x22 then (p, TString (encodeItems acc)) # lex Start (Suc pos) cs
      else if c = CHR 0x5C then lex (InEscape p acc) (Suc pos) cs
      else if (of_char c :: nat) < 32 then [(pos, TInvalid)]
      else lex (InString p (acc @ [Raw c])) (Suc pos) cs)"
| "lex (InEscape p acc) pos (c # cs) =
     (if c = CHR ''u'' then lex (InUnicode p acc []) (Suc pos) cs
      else
        (case simpleEscape c of
           Some ch \<Rightarrow> lex (InString p (acc @ [Raw ch])) (Suc pos) cs
         | None \<Rightarrow> [(pos, TInvalid)]))"
| "lex (InUnicode p acc hs) pos (c # cs) =
     (case hexValue c of
        None \<Rightarrow> [(pos, TInvalid)]
      | Some v \<Rightarrow>
          if length hs = 3
          then lex (InString p (acc @ [Unit (foldl (\<lambda>a h. 16 * a + h) 0 (hs @ [v]))])) (Suc pos) cs
          else lex (InUnicode p acc (hs @ [v])) (Suc pos) cs)"
| "lex (InNumber p acc) pos (c # cs) =
     (if isNumberChar c then lex (InNumber p (acc @ [c])) (Suc pos) cs
      else (p, numberToken acc) # fst (onStart pos c) @ lex (snd (onStart pos c)) (Suc pos) cs)"
| "lex (InWord p acc) pos (c # cs) =
     (if isWordChar c then lex (InWord p (acc @ [c])) (Suc pos) cs
      else (p, wordToken acc) # fst (onStart pos c) @ lex (snd (onStart pos c)) (Suc pos) cs)"

text \<open>
  Own property keys of an ordinary object enumerate array indices first, in ascending
  order, then the other keys in the order of their creation; defining an existing key
  keeps its place.
\<close>

definition isArrayIndex :: "string \<Rightarrow> bool" where
  "isArrayIndex k =
     (k \<noteq> [] \<and> list_all isDigit k \<and> (k = ''0'' \<or> hd k \<noteq> CHR ''0'') \<and>
      int (natOfDigits 10 k) < 4294967295)"

fun insertIndex :: "string \<Rightarrow> JsonValue \<Rightarrow> (string \<times> JsonValue) list \<Rightarrow> (string \<times> JsonValue) list" where
  "insertIndex k v [] = [(k, v)]"
| "insertIndex k v (kv # r) =
     (if isArrayIndex (fst kv) \<and> natOfDigits 10 (fst kv) < natOfDigits 10 k
      then kv # insertIndex k v r
      else (k, v) # kv # r)"

definition defineProperty ::
  "(string \<times> JsonValue) list \<Rightarrow> string \<Rightarrow> JsonValue \<Rightarrow> (string \<times> JsonValue) list" where
  "defineProperty ms k v =
     (if k \<in> set (map fst ms) then map (\<lambda>kv. if fst kv = k then (k, v) else kv) ms
      else if isArrayIndex k then insertIndex k v ms
      else ms @ [(k, v)])"

text \<open>
  The parser is a pushdown automaton over the tokens: what it expects next, and the
  containers that are still open together with what they hold so far.
\<close>

datatype frame = FArr "JsonValue list" | FObj "(string \<times> JsonValue) list" "string option"

datatype pstate =
    PValue | PValueOrClose | PKeyOrClose | PKey | PColon | PCommaOrClose | PDone JsonValue

fun pushValue :: "JsonValue \<Rightarrow> frame list \<Rightarrow> pstate \<times> frame list" where
  "pushValue v [] = (PDone v, [])"
| "pushValue v (FArr xs # st) = (PCommaOrClose, FArr (xs @ [v]) # st)"
| "pushValue v (FObj ms key # st) =
     (PCommaOrClose,
      FObj (case key of Some k \<Rightarrow> defineProperty ms k v | None \<Rightarrow> ms) None # st)"

definition startValue :: "token \<Rightarrow> frame list \<Rightarrow> (pstate \<times> frame list) option" where
  "startValue tok st =
     (case tok of
        TScalar v \<Rightarrow> Some (pushValue v st)
      | TString t \<Rightarrow> Some (pushValue (JStr t) st)
      | TLBrace \<Rightarrow> Some (PKeyOrClose, FObj [] None # st)
      | TLBracket \<Rightarrow> Some (PValueOrClose, FArr [] # st)
      | _ \<Rightarrow> None)"

definition closeFrame :: "token \<Rightarrow> frame list \<Rightarrow> (pstate \<times> frame list) option" where
  "closeFrame tok st =
     (case (tok, st) of
        (TRBracket, FArr xs # st') \<Rightarrow> Some (pushValue (JArr xs) st')
      | (TRBrace, FObj ms key # st') \<Rightarrow> Some (pushValue (JObj ms) st')
      | _ \<Rightarrow> None)"

definition startKey :: "token \<Rightarrow> frame list \<Rightarrow> (pstate \<times> frame list) option" where
  "startKey tok st =
     (case (tok, st) of
        (TString k, FObj ms key # st') \<Rightarrow> Some (PColon, FObj ms (Some k) # st')
      | _ \<Rightarrow> None)"

definition pstep :: "pstate \<Rightarrow> frame list \<Rightarrow> token \<Rightarrow> (pstate \<times> frame list) option" where
  "pstep ps st tok =
     (case ps of
        PValue \<Rightarrow> startValue tok st
      | PValueOrClose \<Rightarrow> (if tok = TRBracket then closeFrame tok st else startValue tok st)
      | PKeyOrClose \<Rightarrow> (if tok = TRBrace then closeFrame tok st else startKey tok st)
      | PKey \<Rightarrow> startKey tok st
      | PColon \<Rightarrow> (if tok = TColon then Some (PValue, st) else None)
      | PCommaOrClose \<Rightarrow>
          (if tok = TComma then
             (case st of
                FArr xs # st' \<Rightarrow> Some (PValue, st)
              | FObj ms key # st' \<Rightarrow> Some (PKey, st)
              | [] \<Rightarrow> None)
           else closeFrame tok st)
      | PDone v \<Rightarrow> None)"

text \<open>\<open>Inl None\<close>: the text ended too early; \<open>Inl (Some pos)\<close>: no token may stand at \<open>pos\<close>.\<close>

fun parseTokens :: "pstate \<Rightarrow> frame list \<Rightarrow> (nat \<times> token) list \<Rightarrow> nat option + JsonValue" where
  "parseTokens ps st [] = (case ps of PDone v \<Rightarrow> Inr v | _ \<Rightarrow> Inl None)"
| "parseTokens ps st (t # ts) =
     (if snd t = TUnterminated then Inl None
      else
        (case pstep ps st (snd t) of
           None \<Rightarrow> Inl (Some (fst t))
         | Some next \<Rightarrow> parseTokens (fst next) (snd next) ts))"

definition parseJSON :: "string \<Rightarrow> thrown + JsonValue" where
  "parseJSON text =
     (case parseTokens PValue [] (lex Start 0 text) of
        Inr v \<Rightarrow> Inr v
      | Inl None \<Rightarrow> Inl (Error ''Unexpected end of JSON input'')
      | Inl (Some pos) \<Rightarrow>
          Inl (Error (''Unexpected token '' @ take 1 (drop pos text) @
                      '' in JSON at position '' @ digitsOf pos)))"

subsection \<open>The imported utilities\<close>

text \<open>
  Modelled from the spec: \<^verbatim>\<open>updateValueAtPath\<close> of \<^verbatim>\<open>@/lib/utils/json/jsonUtils\<close>,
  whose source is not at hand. It returns a new tree equal to the root except for the
  location at the path, which holds the new value, and fails on an invalid path: one
  that leads through a value that is not an object.
\<close>

fun updatePath :: "JsonValue \<Rightarrow> string list \<Rightarrow> JsonValue \<Rightarrow> thrown + JsonValue" where
  "updatePath root [] newValue = Inr newValue"
| "updatePath (JObj kvs) (k # ks) newValue =
     (case map_of kvs k of
        Some child \<Rightarrow>
          (case updatePath child ks newValue of
             Inr c \<Rightarrow> Inr (JObj (map (\<lambda>kv. if fst kv = k then (k, c) else kv) kvs))
           | Inl e \<Rightarrow> Inl e)
      | None \<Rightarrow>
          if ks = [] then Inr (JObj (kvs @ [(k, newValue)]))
          else Inl (Error ''Invalid path''))"
| "updatePath root (k # ks) newValue = Inl (Error ''Invalid path'')"

text \<open>
  Modelled from the spec: \<^verbatim>\<open>generateDefaultValue\<close> of
  \<^verbatim>\<open>@/lib/utils/json/schemaUtils\<close>, whose source is not at hand. It produces a
  placeholder that conforms to the schema.
\<close>

definition defaultValue :: "JsonSchemaType \<Rightarrow> JsonValue" where
  "defaultValue sch =
     (if type sch = ''string'' then JStr []
      else if type sch = ''number'' \<or> type sch = ''integer'' then JNum (Dec 0 0)
      else if type sch = ''boolean'' then JBool False
      else if type sch = ''array'' then JArr []
      else if type sch = ''object'' then JObj []
      else JNull)"

text \<open>
  The reference host. \<^verbatim>\<open>JSON.stringify\<close> is used at its declared result type
  \<^verbatim>\<open>string\<close>; where it returns \<^verbatim>\<open>undefined\<close> the text is what that value reads as.
\<close>

definition js :: host where
  "js =
     \<lparr>JSON_parse = parseJSON,
      JSON_stringify = (\<lambda>v n. case stringify v n of Some t \<Rightarrow> t | None \<Rightarrow> ''undefined''),
      updateValueAtPath = updatePath,
      generateDefaultValue = defaultValue\<rparr>"

section \<open>Examples\<close>

definition leaf :: "string \<Rightarrow> JsonSchemaType" where
  "leaf t = JsonSchemaType t None None None None None None None"

text \<open>
  \<^verbatim>\<open>{type:"object", required:["name"], properties:{name:{type:"string"},
  age:{type:"number"}}}\<close>
\<close>

definition personSchema :: JsonSchemaType where
  "personSchema =
     JsonSchemaType ''object''
       (Some [(''name'', leaf ''string''), (''age'', leaf ''number'')])
       (Some (ReqList [''name''])) None None None None None"

text \<open>An object schema with a nested array property.\<close>

definition taggedSchema :: JsonSchemaType where
  "taggedSchema =
     JsonSchemaType ''object''
       (Some [(''name'', leaf ''string''), (''tags'', leaf ''array'')])
       None None None None None None"

text \<open>\<^verbatim>\<open>{type:"object"}\<close>, and the same with \<^verbatim>\<open>properties: {}\<close>.\<close>

definition bareObjectSchema :: JsonSchemaType where
  "bareObjectSchema = leaf ''object''"

definition emptyObjectSchema :: JsonSchemaType where
  "emptyObjectSchema = JsonSchemaType ''object'' (Some []) None None None None None None"

definition personValue :: JsonValue where
  "personValue = JObj [(''name'', JStr ''Ada''), (''age'', JNum (Dec 36 0))]"

definition personProps :: props where
  "personProps = \<lparr>schema = personSchema, value = personValue, maxDepth = None\<rparr>"

text \<open>The person form with every field required: \<^verbatim>\<open>required: true\<close>.\<close>

definition strictProps :: props where
  "strictProps =
     \<lparr>schema =
        JsonSchemaType ''object''
          (Some [(''name'', leaf ''string''), (''age'', leaf ''number'')])
          (Some (ReqBool True)) None None None None None,
      value = personValue, maxDepth = None\<rparr>"

definition bareProps :: props where
  "bareProps = \<lparr>schema = bareObjectSchema, value = JObj [], maxDepth = None\<rparr>"

text \<open>The input \<^verbatim>\<open>{"a":1}\<close> and what Format makes of it.\<close>

definition compactText :: string where
  "compactText = ''{'' @ [CHR 0x22] @ ''a'' @ [CHR 0x22] @ '':1}''"

definition formattedText :: string where
  "formattedText =
     ''{'' @ [CHR 0x0A] @ ''  '' @ [CHR 0x22] @ ''a'' @ [CHR 0x22] @ '': 1'' @ [CHR 0x0A] @ ''}''"

text \<open>A mounted instance in raw-text mode whose buffer holds the given text.\<close>

definition rawState :: "string \<Rightarrow> state" where
  "rawState t =
     \<lparr>isJsonMode = True, jsonError = None, rawJsonValue = t, timeoutRef = None,
      now = 0, timers = [], nextTimer = 1, calls = [], console = [], mounted = True\<rparr>"

text \<open>A mounted instance in structured mode.\<close>

definition formState :: state where
  "formState = (rawState [])\<lparr>isJsonMode := False\<rparr>"

text \<open>A form over a single number.\<close>

definition scalarProps :: props where
  "scalarProps = \<lparr>schema = leaf ''number'', value = JNum (Dec 5 0), maxDepth = None\<rparr>"

text \<open>A depth limit of one over the schema with the nested array.\<close>

definition deepProps :: props where
  "deepProps =
     \<lparr>schema = taggedSchema,
      value = JObj [(''name'', JStr ''Ada''), (''tags'', JArr [])],
      maxDepth = Some 1\<rparr>"

text \<open>The person form with a depth limit of zero.\<close>

definition flatProps :: props where
  "flatProps = \<lparr>schema = personSchema, value = personValue, maxDepth = Some 0\<rparr>"

section \<open>Vocabulary of the specification\<close>

text \<open>The supported scalar types, as the specification lists them.\<close>

definition scalarTypes :: "string set" where
  "scalarTypes = {''string'', ''number'', ''integer'', ''boolean'', ''null''}"

text \<open>The schemas of the declared properties; none when \<open>properties\<close> is absent.\<close>

definition declaredProperties :: "JsonSchemaType \<Rightarrow> JsonSchemaType list" where
  "declaredProperties sch = map snd (case properties sch of None \<Rightarrow> [] | Some ps \<Rightarrow> ps)"

text \<open>A schema with its \<open>required\<close> replaced.\<close>

definition withRequired :: "required_t option \<Rightarrow> JsonSchemaType \<Rightarrow> JsonSchemaType" where
  "withRequired r sch =
     JsonSchemaType (type sch) (properties sch) r (enum sch) (enumNames sch) (format sch)
       (title sch) (description sch)"

text \<open>The pending timers that remain once the timer in \<open>timeoutRef\<close> is cancelled.\<close>

definition afterCancel :: "state \<Rightarrow> (nat \<times> nat \<times> string) list" where
  "afterCancel s =
     (case timeoutRef s of
        Some h \<Rightarrow> if h \<noteq> 0 then filter (\<lambda>tm. fst tm \<noteq> h) (timers s) else timers s
      | None \<Rightarrow> timers s)"

text \<open>
  The timer invariant: handles are positive, and at most one timer is pending, which is
  then the one \<open>timeoutRef\<close> holds.
\<close>

definition timerInv :: "state \<Rightarrow> bool" where
  "timerInv s =
     (0 < nextTimer s \<and>
      (case timers s of
         [] \<Rightarrow> True
       | [tm] \<Rightarrow> timeoutRef s = Some (fst tm) \<and> fst tm \<noteq> 0
       | _ \<Rightarrow> False))"

section \<open>Properties\<close>

subsection \<open>Structured capability\<close>

lemma set_supportedTypes: "set supportedTypes = scalarTypes"
  by (auto simp: supportedTypes_def scalarTypes_def)

text \<open>
  C7. \<open>isSimpleObject\<close> holds exactly when the schema's type is one of string, number,
  integer, boolean, null, or the type is object and every declared property has one of
  those types. In particular an object schema with a property of type object or array
  is not simple.
\<close>

theorem isSimpleObject_iff:
  "(isSimpleObject sch \<longleftrightarrow>
      type sch \<in> scalarTypes \<or>
      (type sch = ''object'' \<and>
       (\<forall>prop \<in> set (declaredProperties sch). type prop \<in> scalarTypes))) \<and>
   (type sch = ''object'' \<and> prop \<in> set (declaredProperties sch) \<and>
      (type prop = ''object'' \<or> type prop = ''array'') \<longrightarrow> \<not> isSimpleObject sch)"
proof -
  have obj: "''object'' \<notin> scalarTypes" and arr: "''array'' \<notin> scalarTypes"
    by (simp_all add: scalarTypes_def)
  have main: "isSimpleObject sch \<longleftrightarrow>
      type sch \<in> scalarTypes \<or>
      (type sch = ''object'' \<and>
       (\<forall>prop \<in> set (declaredProperties sch). type prop \<in> scalarTypes))"
    unfolding isSimpleObject_def declaredProperties_def set_supportedTypes
    by (simp add: list_all_iff)
  show ?thesis
    using main obj arr by auto
qed

theorem isSimpleObject_iff_witness:
  "isSimpleObject personSchema \<and> \<not> isSimpleObject taggedSchema \<and>
   isSimpleObject (leaf ''integer'') \<and> \<not> isSimpleObject (leaf ''array'')"
  using isSimpleObject_iff [of personSchema]
    isSimpleObject_iff [of taggedSchema "leaf ''array''"]
    isSimpleObject_iff [of "leaf ''integer''"]
    isSimpleObject_iff [of "leaf ''array''"]
  by (simp add: personSchema_def taggedSchema_def leaf_def declaredProperties_def
      scalarTypes_def)

subsection \<open>Required fields\<close>

lemma withRequired_sel:
  "type (withRequired r sch) = type sch"
  "properties (withRequired r sch) = properties sch"
  "enum (withRequired r sch) = enum sch"
  "enumNames (withRequired r sch) = enumNames sch"
  "format (withRequired r sch) = format sch"
  "title (withRequired r sch) = title sch"
  by (simp_all add: withRequired_def)

text \<open>
  C8. A field at a path is required exactly when the \<open>required\<close> of the root schema is
  the boolean true, or is a list that contains the last segment of the path. The marker
  and the control of every rendered field are computed that way from the field's path,
  and neither the rendered fields of a schema nor the control of a leaf change when that
  schema's own \<open>required\<close> is replaced: only the root's is read.
\<close>

theorem isFieldRequired_root_only:
  "(isFieldRequired p path \<longleftrightarrow>
      required (schema p) = Some (ReqBool True) \<or>
      (\<exists>names. required (schema p) = Some (ReqList names) \<and> path \<noteq> [] \<and>
         last path \<in> set names)) \<and>
   (depth < maxDepthOf p \<and> type propSchema = ''object'' \<and> properties propSchema = Some ps \<longrightarrow>
      renderFormFields H p s propSchema currentValue path depth =
      FieldList
        (map (\<lambda>(fieldName, fieldSchema).
                (fieldName, fieldLabel fieldSchema fieldName,
                 isFieldRequired p (path @ [fieldName]),
                 renderFieldInput H p fieldSchema (fieldValueOf currentValue fieldName)
                   (path @ [fieldName]) (isFieldRequired p (path @ [fieldName]))))
           ps)) \<and>
   (depth < maxDepthOf p \<longrightarrow>
      renderFormFields H p s (withRequired r propSchema) currentValue path depth =
      renderFormFields H p s propSchema currentValue path depth) \<and>
   renderFieldInput H p (withRequired r fieldSchema) fieldValue fieldPath fieldRequired =
     renderFieldInput H p fieldSchema fieldValue fieldPath fieldRequired"
proof -
  have iff: "isFieldRequired p path \<longleftrightarrow>
      required (schema p) = Some (ReqBool True) \<or>
      (\<exists>names. required (schema p) = Some (ReqList names) \<and> path \<noteq> [] \<and>
         last path \<in> set names)" for path
    by (auto simp: isFieldRequired_def split: option.splits required_t.splits)
  have last_seg: "isFieldRequired p [fieldName] = isFieldRequired p (path @ [fieldName])"
    for fieldName
    by (simp add: isFieldRequired_def split: option.splits required_t.splits)
  have fields: "renderFormFields H p s propSchema currentValue path depth =
      FieldList
        (map (\<lambda>(fieldName, fieldSchema).
                (fieldName, fieldLabel fieldSchema fieldName,
                 isFieldRequired p (path @ [fieldName]),
                 renderFieldInput H p fieldSchema (fieldValueOf currentValue fieldName)
                   (path @ [fieldName]) (isFieldRequired p (path @ [fieldName]))))
           ps)"
    if "depth < maxDepthOf p" "type propSchema = ''object''" "properties propSchema = Some ps"
    using that by (simp add: renderFormFields_def Let_def last_seg)
  have field: "renderFieldInput H p (withRequired r sch) v q b = renderFieldInput H p sch v q b"
    for sch v q b
    unfolding renderFieldInput_def withRequired_sel ..
  have own: "renderFormFields H p s (withRequired r propSchema) currentValue path depth =
     renderFormFields H p s propSchema currentValue path depth"
    if "depth < maxDepthOf p"
    using that unfolding renderFormFields_def withRequired_sel field by simp
  show ?thesis
    using iff fields own field by blast
qed

theorem isFieldRequired_root_only_witness:
  "isFieldRequired personProps [''name''] \<and> \<not> isFieldRequired personProps [''age''] \<and>
   \<not> isFieldRequired personProps [] \<and> isFieldRequired strictProps [''age''] \<and>
   renderFormFields js personProps formState personSchema personValue [] 0 =
     FieldList
       [(''name'', ''name'', True,
         Input ''text'' (string_onChange js personProps [''name''] True) True),
        (''age'', ''age'', False,
         Input ''number'' (number_onChange js personProps [''age''] False) False)]"
proof -
  have req: "required (schema personProps) = Some (ReqList [''name''])"
    "required (schema strictProps) = Some (ReqBool True)"
    by (simp_all add: personProps_def strictProps_def personSchema_def)
  have shape: "0 < maxDepthOf personProps \<and> type personSchema = ''object'' \<and>
      properties personSchema = Some [(''name'', leaf ''string''), (''age'', leaf ''number'')]"
    by (simp add: personProps_def personSchema_def maxDepthOf_def)
  have name: "isFieldRequired personProps [''name'']"
    and age: "\<not> isFieldRequired personProps [''age'']"
    and root: "\<not> isFieldRequired personProps []"
    and strict: "isFieldRequired strictProps [''age'']"
    using isFieldRequired_root_only [of personProps "[''name'']"]
      isFieldRequired_root_only [of personProps "[''age'']"]
      isFieldRequired_root_only [of personProps "[]"]
      isFieldRequired_root_only [of strictProps "[''age'']"]
    by (simp_all add: req)
  have "renderFormFields js personProps formState personSchema personValue [] 0 =
     FieldList
       [(''name'', ''name'', isFieldRequired personProps [''name''],
         renderFieldInput js personProps (leaf ''string'') (fieldValueOf personValue ''name'')
           [''name''] (isFieldRequired personProps [''name''])),
        (''age'', ''age'', isFieldRequired personProps [''age''],
         renderFieldInput js personProps (leaf ''number'') (fieldValueOf personValue ''age'')
           [''age''] (isFieldRequired personProps [''age'']))]"
    using isFieldRequired_root_only [of personProps "[]" 0 personSchema
        "[(''name'', leaf ''string''), (''age'', leaf ''number'')]" js formState personValue]
      shape
    by (simp add: fieldLabel_def leaf_def)
  then show ?thesis
    using name age root strict
    by (simp add: renderFieldInput_def leaf_def inputType_def)
qed

subsection \<open>Object schemas without properties\<close>

text \<open>
  C10. \<open>shouldUseJsonMode\<close> holds exactly for the schemas of type object whose properties
  are absent or empty. For these \<open>isSimpleObject\<close> is true, so the switch button is
  rendered, while the mode effect puts the component into raw-text mode: after mounting
  and after a click on the switch it is in raw-text mode. For every other schema the
  effect does nothing.
\<close>

theorem empty_object_keeps_switch:
  "(shouldUseJsonMode p \<longleftrightarrow>
      type (schema p) = ''object'' \<and>
      (properties (schema p) = None \<or> properties (schema p) = Some [])) \<and>
   (shouldUseJsonMode p \<longrightarrow>
      isSimpleObject (schema p) \<and> \<not> isOnlyJSON p \<and>
      switchButton (render H p s) \<noteq> None \<and>
      isJsonMode (modeEffect p s) \<and> isJsonMode (mount H p) \<and>
      (mounted s \<longrightarrow> isJsonMode (step H p ClickSwitch s))) \<and>
   (\<not> shouldUseJsonMode p \<longrightarrow> modeEffect p s = s)"
proof -
  have shape: "shouldUseJsonMode p \<longleftrightarrow>
      type (schema p) = ''object'' \<and>
      (properties (schema p) = None \<or> properties (schema p) = Some [])"
    by (auto simp: shouldUseJsonMode_def split: option.splits)
  have simple: "isSimpleObject (schema p)" if "shouldUseJsonMode p"
    using that unfolding shape by (auto simp: isSimpleObject_def)
  have forced: "isJsonMode (modeEffect p t)" if "shouldUseJsonMode p" for t
    using that by (simp add: modeEffect_def setIsJsonMode_def)
  have click: "isJsonMode (step H p ClickSwitch s)" if "shouldUseJsonMode p" "mounted s"
    using that simple forced by (simp add: step_def isOnlyJSON_def)
  have idle: "modeEffect p s = s" if "\<not> shouldUseJsonMode p"
    using that by (simp add: modeEffect_def)
  show ?thesis
    using shape simple forced click idle
    by (auto simp: render_def isOnlyJSON_def mount_def)
qed

theorem empty_object_keeps_switch_witness:
  "shouldUseJsonMode bareProps \<and> isSimpleObject bareObjectSchema \<and>
   isSimpleObject emptyObjectSchema \<and>
   switchButton (render js bareProps (rawState ''{}'')) = Some ''Switch to Form'' \<and>
   isJsonMode (step js bareProps ClickSwitch (rawState ''{}'')) \<and>
   calls (step js bareProps ClickSwitch (rawState ''{}'')) = [(0, JObj [])] \<and>
   \<not> shouldUseJsonMode personProps \<and> modeEffect personProps formState = formState"
proof -
  have bare: "shouldUseJsonMode bareProps"
    using empty_object_keeps_switch [of bareProps js "rawState ''{}''"]
    by (simp add: bareProps_def bareObjectSchema_def leaf_def)
  have person: "\<not> shouldUseJsonMode personProps"
    using empty_object_keeps_switch [of personProps js formState]
    by (simp add: personProps_def personSchema_def)
  have m: "mounted (rawState ''{}'')"
    by (simp add: rawState_def)
  have e: "isSimpleObject emptyObjectSchema"
    using empty_object_keeps_switch [of "\<lparr>schema = emptyObjectSchema, value = JObj [], maxDepth = None\<rparr>" js formState]
    by (simp add: emptyObjectSchema_def)
  have c: "calls (step js bareProps ClickSwitch (rawState ''{}'')) = [(0, JObj [])]"
    by code_simp
  have sw: "switchButton (render js bareProps (rawState ''{}'')) = Some ''Switch to Form''"
    using empty_object_keeps_switch [of bareProps js "rawState ''{}''"] bare
    by (auto simp: render_def rawState_def)
  show ?thesis
    using empty_object_keeps_switch [of bareProps js "rawState ''{}''"]
      empty_object_keeps_switch [of personProps js formState] bare person m e c sw
    by (simp add: bareProps_def)
qed

subsection \<open>Commit\<close>

text \<open>
  C6. A commit with the empty path forwards the value itself to \<open>onChange\<close>. With a
  non-empty path it forwards the result of \<open>updateValueAtPath\<close> on the owner's value;
  when \<open>updateValueAtPath\<close> throws, the error is written to the console and the owner's
  unchanged value is forwarded again. The handler always returns a state: nothing is
  thrown to its caller.
\<close>

theorem handleFieldChange_commit:
  "(path = [] \<longrightarrow>
      handleFieldChange H p path v s = s\<lparr>calls := calls s @ [(now s, v)]\<rparr>) \<and>
   (path \<noteq> [] \<and> updateValueAtPath H (value p) path v = Inr newValue \<longrightarrow>
      handleFieldChange H p path v s = s\<lparr>calls := calls s @ [(now s, newValue)]\<rparr>) \<and>
   (path \<noteq> [] \<and> updateValueAtPath H (value p) path v = Inl err \<longrightarrow>
      handleFieldChange H p path v s =
        s\<lparr>calls := calls s @ [(now s, value p)],
          console := console s @ [(''Failed to update form value:'', err)]\<rparr>)"
  by (simp add: handleFieldChange_def onChange_def console_error_def)

theorem handleFieldChange_commit_witness:
  "handleFieldChange js scalarProps [] (JNum (Dec 7 0)) formState =
     formState\<lparr>calls := [(0, JNum (Dec 7 0))]\<rparr> \<and>
   handleFieldChange js personProps [''age''] (JNum (Dec 37 0)) formState =
     formState\<lparr>calls := [(0, JObj [(''name'', JStr ''Ada''), (''age'', JNum (Dec 37 0))])]\<rparr> \<and>
   handleFieldChange js scalarProps [''age''] (JNum (Dec 37 0)) formState =
     formState\<lparr>calls := [(0, JNum (Dec 5 0))],
       console := [(''Failed to update form value:'', Error ''Invalid path'')]\<rparr>"
proof -
  have ok: "updateValueAtPath js (value personProps) [''age''] (JNum (Dec 37 0)) =
      Inr (JObj [(''name'', JStr ''Ada''), (''age'', JNum (Dec 37 0))])"
    by (simp add: js_def personProps_def personValue_def)
  have bad: "updateValueAtPath js (value scalarProps) [''age''] (JNum (Dec 37 0)) =
      Inl (Error ''Invalid path'')"
    by (simp add: js_def scalarProps_def)
  have st: "calls formState = [] \<and> console formState = [] \<and> now formState = 0"
    by (simp add: formState_def rawState_def)
  show ?thesis
    using handleFieldChange_commit [where path = "[]" and H = js and p = scalarProps
        and v = "JNum (Dec 7 0)" and s = formState]
      handleFieldChange_commit [where path = "[''age'']" and H = js and p = personProps
        and v = "JNum (Dec 37 0)" and s = formState] ok
      handleFieldChange_commit [where path = "[''age'']" and H = js and p = scalarProps
        and v = "JNum (Dec 37 0)" and s = formState] bad
    by (simp add: st scalarProps_def)
qed

subsection \<open>Leaving raw-text mode\<close>

text \<open>
  C3. In raw-text mode the switch handler parses the text buffer. When the buffer parses,
  the parsed value is forwarded to \<open>onChange\<close> and the mode becomes structured. When
  parsing fails, the error is set to the parser's message, the mode stays raw-text and
  nothing is forwarded. Unless the schema is an object without properties, a click on
  the rendered switch is exactly this handler: the mode effect adds nothing.
\<close>

theorem handleSwitchToFormMode_from_raw:
  "(isJsonMode s \<and> JSON_parse H (rawJsonValue s) = Inr parsed \<longrightarrow>
      handleSwitchToFormMode H p s =
        s\<lparr>calls := calls s @ [(now s, parsed)], isJsonMode := False\<rparr>) \<and>
   (isJsonMode s \<and> JSON_parse H (rawJsonValue s) = Inl (Error m) \<longrightarrow>
      handleSwitchToFormMode H p s = s\<lparr>jsonError := Some m\<rparr> \<and>
      isJsonMode (handleSwitchToFormMode H p s) \<and>
      calls (handleSwitchToFormMode H p s) = calls s) \<and>
   (mounted s \<and> \<not> isOnlyJSON p \<and> \<not> shouldUseJsonMode p \<longrightarrow>
      step H p ClickSwitch s = handleSwitchToFormMode H p s)"
  by (simp add: handleSwitchToFormMode_def onChange_def setIsJsonMode_def setJsonError_def
      errorMessage_def step_def modeEffect_def)

theorem handleSwitchToFormMode_from_raw_witness:
  "handleSwitchToFormMode js personProps (rawState compactText) =
     (rawState compactText)\<lparr>calls := [(0, JObj [(''a'', JNum (Dec 1 0))])], isJsonMode := False\<rparr> \<and>
   step js personProps ClickSwitch (rawState compactText) =
     (rawState compactText)\<lparr>calls := [(0, JObj [(''a'', JNum (Dec 1 0))])], isJsonMode := False\<rparr> \<and>
   handleSwitchToFormMode js personProps (rawState ''{'') =
     (rawState ''{'')\<lparr>jsonError := Some ''Unexpected end of JSON input''\<rparr>"
proof -
  have ok: "JSON_parse js (rawJsonValue (rawState compactText)) =
      Inr (JObj [(''a'', JNum (Dec 1 0))])"
    unfolding js_def rawState_def compactText_def by code_simp
  have bad: "JSON_parse js (rawJsonValue (rawState ''{'')) =
      Inl (Error ''Unexpected end of JSON input'')"
    unfolding js_def rawState_def by code_simp
  have st: "isJsonMode (rawState t) \<and> mounted (rawState t) \<and> calls (rawState t) = [] \<and>
      now (rawState t) = 0" for t
    by (simp add: rawState_def)
  have shown: "\<not> isOnlyJSON personProps \<and> \<not> shouldUseJsonMode personProps"
    by (simp add: isOnlyJSON_def shouldUseJsonMode_def isSimpleObject_def supportedTypes_def
        personProps_def personSchema_def leaf_def)
  have a: "handleSwitchToFormMode js personProps (rawState compactText) =
     (rawState compactText)\<lparr>calls := [(0, JObj [(''a'', JNum (Dec 1 0))])], isJsonMode := False\<rparr>"
    using handleSwitchToFormMode_from_raw [where s = "rawState compactText" and H = js
        and p = personProps] ok
    by (simp add: st)
  have b: "step js personProps ClickSwitch (rawState compactText) =
      handleSwitchToFormMode js personProps (rawState compactText)"
    using handleSwitchToFormMode_from_raw [where s = "rawState compactText" and H = js
        and p = personProps] st shown
    by blast
  have c: "handleSwitchToFormMode js personProps (rawState ''{'') =
     (rawState ''{'')\<lparr>jsonError := Some ''Unexpected end of JSON input''\<rparr>"
    using handleSwitchToFormMode_from_raw [where s = "rawState ''{''" and H = js
        and p = personProps] bad st
    by blast
  show ?thesis
    unfolding b using a c by simp
qed

subsection \<open>Format\<close>

lemma debouncedUpdateParent_eq:
  "debouncedUpdateParent str s =
     s\<lparr>timers := afterCancel s @ [(nextTimer s, now s + 300, str)],
       nextTimer := Suc (nextTimer s),
       timeoutRef := Some (nextTimer s)\<rparr>"
  by (simp add: debouncedUpdateParent_def afterCancel_def setTimeout_def clearTimeout_def
      split: option.splits)

lemma elapse_single:
  "timers s = [(h, due, str)] \<Longrightarrow> due \<le> now s + d \<Longrightarrow>
   elapse H d s = timerCallback H str (s\<lparr>now := now s + d, timers := []\<rparr>)"
  by (simp add: elapse_def Let_def)

lemma elapse_waiting:
  "timers s = [(h, due, str)] \<Longrightarrow> now s + d < due \<Longrightarrow>
   elapse H d s = s\<lparr>now := now s + d\<rparr>"
  by (simp add: elapse_def Let_def)

lemma elapse_idle: "timers s = [] \<Longrightarrow> elapse H d s = s\<lparr>now := now s + d\<rparr>"
  by (simp add: elapse_def Let_def)

text \<open>
  C4. Format does nothing when the trimmed buffer is blank. When the trimmed buffer
  parses, the buffer becomes the value serialised with an indentation of two spaces, the
  error is cleared and the debounced update is scheduled with the new text, whose timer
  forwards the parsed text to \<open>onChange\<close> once it fires. When parsing fails, the error is
  set to the parser's message and nothing else changes. On the reference host the buffer
  \<^verbatim>\<open>{"a":1}\<close> becomes \<^verbatim>\<open>{\n  "a": 1\n}\<close>, and the buffer \<^verbatim>\<open>not json\<close> is kept
  while an error is set.
\<close>

theorem formatJson_cases:
  "(trim (rawJsonValue s) = [] \<longrightarrow> formatJson H s = s) \<and>
   (trim (rawJsonValue s) \<noteq> [] \<and> JSON_parse H (trim (rawJsonValue s)) = Inr v \<longrightarrow>
      formatJson H s =
        s\<lparr>rawJsonValue := JSON_stringify H v 2,
          jsonError := None,
          timers := afterCancel s @ [(nextTimer s, now s + 300, JSON_stringify H v 2)],
          nextTimer := Suc (nextTimer s),
          timeoutRef := Some (nextTimer s)\<rparr> \<and>
      (afterCancel s = [] \<and> 300 \<le> d \<and> JSON_parse H (JSON_stringify H v 2) = Inr v' \<longrightarrow>
         calls (elapse H d (formatJson H s)) = calls s @ [(now s + d, v')])) \<and>
   (trim (rawJsonValue s) \<noteq> [] \<and> JSON_parse H (trim (rawJsonValue s)) = Inl (Error m) \<longrightarrow>
      formatJson H s = s\<lparr>jsonError := Some m\<rparr>) \<and>
   rawJsonValue (formatJson js (rawState compactText)) = formattedText \<and>
   calls (elapse js 300 (formatJson js (rawState compactText))) =
     [(300, JObj [(''a'', JNum (Dec 1 0))])] \<and>
   formatJson js (rawState ''not json'') =
     (rawState ''not json'')\<lparr>jsonError := Some ''Unexpected token n in JSON at position 0''\<rparr>"
proof -
  let ?f = "JSON_stringify H v 2"
  have blank: "formatJson H s = s" if "trim (rawJsonValue s) = []"
    using that by (simp add: formatJson_def)
  have good: "formatJson H s =
        s\<lparr>rawJsonValue := ?f, jsonError := None,
          timers := afterCancel s @ [(nextTimer s, now s + 300, ?f)],
          nextTimer := Suc (nextTimer s),
          timeoutRef := Some (nextTimer s)\<rparr>"
    if "trim (rawJsonValue s) \<noteq> []" "JSON_parse H (trim (rawJsonValue s)) = Inr v"
    using that
    by (simp add: formatJson_def Let_def debouncedUpdateParent_eq setJsonError_def
        setRawJsonValue_def afterCancel_def split: option.splits)
  have fire: "calls (elapse H d (formatJson H s)) = calls s @ [(now s + d, v')]"
    if "trim (rawJsonValue s) \<noteq> []" "JSON_parse H (trim (rawJsonValue s)) = Inr v"
      "afterCancel s = []" "300 \<le> d" "JSON_parse H ?f = Inr v'"
  proof -
    have "timers (formatJson H s) = [(nextTimer s, now s + 300, ?f)]"
      and "now (formatJson H s) = now s" and "calls (formatJson H s) = calls s"
      using that by (simp_all add: good)
    then show ?thesis
      using that
      by (simp add: elapse_single [where h = "nextTimer s" and due = "now s + 300" and str = "?f"]
          timerCallback_def onChange_def setJsonError_def)
  qed
  have bad: "formatJson H s = s\<lparr>jsonError := Some m\<rparr>"
    if "trim (rawJsonValue s) \<noteq> []" "JSON_parse H (trim (rawJsonValue s)) = Inl (Error m)"
    using that by (simp add: formatJson_def Let_def setJsonError_def errorMessage_def)
  have ex1: "rawJsonValue (formatJson js (rawState compactText)) = formattedText"
    by code_simp
  have ex2: "calls (elapse js 300 (formatJson js (rawState compactText))) =
     [(300, JObj [(''a'', JNum (Dec 1 0))])]"
    by code_simp
  have ex3: "formatJson js (rawState ''not json'') =
     (rawState ''not json'')\<lparr>jsonError := Some ''Unexpected token n in JSON at position 0''\<rparr>"
    by code_simp
  show ?thesis
    using blank good fire bad ex1 ex2 ex3 by blast
qed


theorem formatJson_cases_witness:
  "formatJson js (rawState ''  '') = rawState ''  '' \<and>
   formatJson js (rawState '' [1,2]'') =
     (rawState '' [1,2]'')
       \<lparr>rawJsonValue := ''['' @ [CHR 0x0A] @ ''  1,'' @ [CHR 0x0A] @ ''  2'' @ [CHR 0x0A] @ '']'',
        jsonError := None,
        timers := [(1, 300, ''['' @ [CHR 0x0A] @ ''  1,'' @ [CHR 0x0A] @ ''  2'' @ [CHR 0x0A] @ '']'')],
        nextTimer := 2,
        timeoutRef := Some 1\<rparr> \<and>
   calls (elapse js 450 (formatJson js (rawState '' [1,2]''))) =
     [(450, JArr [JNum (Dec 1 0), JNum (Dec 2 0)])] \<and>
   formatJson js (rawState ''[1,'') =
     (rawState ''[1,'')\<lparr>jsonError := Some ''Unexpected end of JSON input''\<rparr>"
proof -
  let ?out = "''['' @ [CHR 0x0A] @ ''  1,'' @ [CHR 0x0A] @ ''  2'' @ [CHR 0x0A] @ '']''"
  have t1: "trim (rawJsonValue (rawState ''  '')) = []"
    and t2: "trim (rawJsonValue (rawState '' [1,2]'')) \<noteq> []"
    and t3: "trim (rawJsonValue (rawState ''[1,'')) \<noteq> []"
    by (simp_all add: rawState_def trim_def trimEnd_def isWs1_def isWs2_def isWs3_def)
  have p2: "JSON_parse js (trim (rawJsonValue (rawState '' [1,2]''))) =
      Inr (JArr [JNum (Dec 1 0), JNum (Dec 2 0)])"
    unfolding js_def rawState_def by code_simp
  have s2: "JSON_stringify js (JArr [JNum (Dec 1 0), JNum (Dec 2 0)]) 2 = ?out"
    unfolding js_def by code_simp
  have r2: "JSON_parse js ?out = Inr (JArr [JNum (Dec 1 0), JNum (Dec 2 0)])"
    unfolding js_def by code_simp
  have p3: "JSON_parse js (trim (rawJsonValue (rawState ''[1,''))) =
      Inl (Error ''Unexpected end of JSON input'')"
    unfolding js_def rawState_def by code_simp
  have st: "afterCancel (rawState t) = [] \<and> nextTimer (rawState t) = 1 \<and>
      now (rawState t) = 0 \<and> calls (rawState t) = []" for t
    by (simp add: afterCancel_def rawState_def)
  have a: "formatJson js (rawState ''  '') = rawState ''  ''"
    using formatJson_cases [where s = "rawState ''  ''" and H = js] t1 by blast
  have r2': "JSON_parse js (JSON_stringify js (JArr [JNum (Dec 1 0), JNum (Dec 2 0)]) 2) =
      Inr (JArr [JNum (Dec 1 0), JNum (Dec 2 0)])"
    by (simp only: s2 r2)
  have idle: "afterCancel (rawState '' [1,2]'') = []" and late: "(300::nat) \<le> 450"
    by (simp_all add: st)
  have b1: "formatJson js (rawState '' [1,2]'') =
     (rawState '' [1,2]'')
       \<lparr>rawJsonValue := ?out, jsonError := None, timers := [(1, 300, ?out)],
        nextTimer := 2, timeoutRef := Some 1\<rparr>"
    using formatJson_cases [where s = "rawState '' [1,2]''" and H = js
        and v = "JArr [JNum (Dec 1 0), JNum (Dec 2 0)]"] t2 p2
    by (simp add: s2 st)
  have "calls (elapse js 450 (formatJson js (rawState '' [1,2]''))) =
      calls (rawState '' [1,2]'') @
      [(now (rawState '' [1,2]'') + 450, JArr [JNum (Dec 1 0), JNum (Dec 2 0)])]"
    using formatJson_cases [where s = "rawState '' [1,2]''" and H = js
        and v = "JArr [JNum (Dec 1 0), JNum (Dec 2 0)]" and d = 450
        and v' = "JArr [JNum (Dec 1 0), JNum (Dec 2 0)]"] t2 p2 r2' idle late
    by blast
  then have b2: "calls (elapse js 450 (formatJson js (rawState '' [1,2]''))) =
       [(450, JArr [JNum (Dec 1 0), JNum (Dec 2 0)])]"
    by (simp add: st)
  have c: "formatJson js (rawState ''[1,'') =
     (rawState ''[1,'')\<lparr>jsonError := Some ''Unexpected end of JSON input''\<rparr>"
    using formatJson_cases [where s = "rawState ''[1,''" and H = js
        and m = "''Unexpected end of JSON input''"] t3 p3
    by blast
  show ?thesis
    using a b1 b2 c by simp
qed

subsection \<open>The depth limit\<close>

text \<open>
  C9. \<open>maxDepth\<close> defaults to 3. A render at a depth of at least \<open>maxDepth\<close> of a schema of
  type object or array yields a raw-text editor that shows the value it was given and
  edits the given path. An edit that parses is committed through \<open>handleFieldChange\<close> at
  that path and clears the shared error; an edit that does not parse sets the shared
  error to the parser's message and commits nothing.
\<close>

theorem depth_limit_editor:
  "(maxDepth p = None \<longrightarrow> maxDepthOf p = 3) \<and>
   (maxDepthOf p \<le> depth \<and> (type propSchema = ''object'' \<or> type propSchema = ''array'') \<longrightarrow>
      renderFormFields H p s propSchema currentValue path depth =
        JsonEditor
          (JSON_stringify H (nullish currentValue (generateDefaultValue H propSchema)) 2)
          (nested_onChange H p path)
          (jsonError s)) \<and>
   (JSON_parse H newValue = Inr parsed \<longrightarrow>
      nested_onChange H p path newValue st =
        (handleFieldChange H p path parsed st)\<lparr>jsonError := None\<rparr>) \<and>
   (JSON_parse H newValue = Inl (Error m) \<longrightarrow>
      nested_onChange H p path newValue st = st\<lparr>jsonError := Some m\<rparr> \<and>
      calls (nested_onChange H p path newValue st) = calls st)"
  by (simp add: maxDepthOf_def renderFormFields_def nested_onChange_def setJsonError_def
      errorMessage_def)

theorem depth_limit_editor_witness:
  "maxDepthOf personProps = 3 \<and>
   renderFormFields js deepProps formState (leaf ''array'') (JArr []) [''tags''] 1 =
     JsonEditor ''[]'' (nested_onChange js deepProps [''tags'']) None \<and>
   nested_onChange js deepProps [''tags''] ''[true]'' formState =
     formState\<lparr>calls := [(0, JObj [(''name'', JStr ''Ada''), (''tags'', JArr [JBool True])])]\<rparr> \<and>
   nested_onChange js deepProps [''tags''] ''[tru'' formState =
     formState\<lparr>jsonError := Some ''Unexpected token t in JSON at position 1''\<rparr> \<and>
   body (render js flatProps formState) =
     JsonEditor (JSON_stringify js personValue 2) (nested_onChange js flatProps []) None"
proof -
  have d0: "maxDepth personProps = None"
    by (simp add: personProps_def)
  have d1: "maxDepthOf deepProps \<le> 1 \<and> type (leaf ''array'') = ''array''"
    by (simp add: deepProps_def maxDepthOf_def leaf_def)
  have d2: "maxDepthOf flatProps \<le> 0 \<and> type personSchema = ''object''"
    by (simp add: flatProps_def maxDepthOf_def personSchema_def)
  have shown: "JSON_stringify js (nullish (JArr []) (generateDefaultValue js (leaf ''array''))) 2 = ''[]''"
    unfolding js_def by code_simp
  have ok: "JSON_parse js ''[true]'' = Inr (JArr [JBool True])"
    unfolding js_def by code_simp
  have bad: "JSON_parse js ''[tru'' = Inl (Error ''Unexpected token t in JSON at position 1'')"
    unfolding js_def by code_simp
  have commit: "handleFieldChange js deepProps [''tags''] (JArr [JBool True]) formState =
      formState\<lparr>calls := [(0, JObj [(''name'', JStr ''Ada''), (''tags'', JArr [JBool True])])]\<rparr>"
    by (simp add: handleFieldChange_def js_def deepProps_def onChange_def formState_def
        rawState_def)
  have e: "jsonError formState = None"
    by (simp add: formState_def rawState_def)
  have root: "renderFormFields js flatProps formState personSchema personValue [] 0 =
      JsonEditor (JSON_stringify js (nullish personValue (generateDefaultValue js personSchema)) 2)
        (nested_onChange js flatProps []) (jsonError formState)"
    using depth_limit_editor [where p = flatProps and depth = 0 and propSchema = personSchema
        and H = js and s = formState and currentValue = personValue and path = "[]"] d2
    by blast
  have top: "body (render js flatProps formState) =
      renderFormFields js flatProps formState personSchema personValue [] 0"
    by (simp add: render_def flatProps_def formState_def rawState_def)
  have whole: "body (render js flatProps formState) =
     JsonEditor (JSON_stringify js personValue 2) (nested_onChange js flatProps []) None"
    unfolding top root by (simp add: e nullish_def personValue_def)
  show ?thesis
    using depth_limit_editor [where p = personProps]
      depth_limit_editor [where p = deepProps and depth = 1 and propSchema = "leaf ''array''"
        and H = js and s = formState and currentValue = "JArr []" and path = "[''tags'']"
        and newValue = "''[true]''" and parsed = "JArr [JBool True]" and st = formState]
      depth_limit_editor [where p = deepProps and H = js and path = "[''tags'']"
        and newValue = "''[tru''" and m = "''Unexpected token t in JSON at position 1''"
        and st = formState]
      d0 d1 shown ok bad commit e whole
    by simp
qed

subsection \<open>Number fields\<close>

text \<open>
  C1, as the code has it. A schema of type number renders a number input whose handler
  does the following. Empty text in a field that is not required commits \<open>undefined\<close> at
  the path. Empty text in a required field commits the number \<open>0\<close>, which is what
  \<open>Number\<close> makes of the empty text. Text that is not empty and not numeric changes
  nothing: no commit, no error.
\<close>

theorem number_onChange_cases:
  "(type propSchema = ''number'' \<longrightarrow>
      renderFieldInput H p propSchema currentValue path fieldRequired =
        Input ''number'' (number_onChange H p path fieldRequired) fieldRequired) \<and>
   (\<not> fieldRequired \<longrightarrow>
      number_onChange H p path fieldRequired [] s = handleFieldChange H p path JUndefined s) \<and>
   (fieldRequired \<longrightarrow>
      number_onChange H p path fieldRequired [] s =
        handleFieldChange H p path (JNum (Dec 0 0)) s) \<and>
   (val \<noteq> [] \<and> isNaN (Number val) \<longrightarrow>
      number_onChange H p path fieldRequired val s = s)"
proof -
  have zero: "Number [] = Dec 0 0"
    by (simp add: Number_def trim_def trimEnd_def)
  show ?thesis
    by (simp add: renderFieldInput_def number_onChange_def zero isNaN_def)
qed

theorem number_onChange_cases_witness:
  "renderFieldInput js personProps (leaf ''number'') (JNum (Dec 36 0)) [''age''] False =
     Input ''number'' (number_onChange js personProps [''age''] False) False \<and>
   number_onChange js personProps [''age''] False [] formState =
     formState\<lparr>calls := [(0, JObj [(''name'', JStr ''Ada''), (''age'', JUndefined)])]\<rparr> \<and>
   number_onChange js strictProps [''age''] True [] formState =
     formState\<lparr>calls := [(0, JObj [(''name'', JStr ''Ada''), (''age'', JNum (Dec 0 0))])]\<rparr> \<and>
   Number ''abc'' = NaN \<and>
   number_onChange js personProps [''age''] False ''abc'' formState = formState"
proof -
  have nan: "Number ''abc'' = NaN"
    by code_simp
  have c1: "handleFieldChange js personProps [''age''] JUndefined formState =
      formState\<lparr>calls := [(0, JObj [(''name'', JStr ''Ada''), (''age'', JUndefined)])]\<rparr>"
    by (simp add: handleFieldChange_def js_def personProps_def personValue_def onChange_def
        formState_def rawState_def)
  have c2: "handleFieldChange js strictProps [''age''] (JNum (Dec 0 0)) formState =
      formState\<lparr>calls := [(0, JObj [(''name'', JStr ''Ada''), (''age'', JNum (Dec 0 0))])]\<rparr>"
    by (simp add: handleFieldChange_def js_def strictProps_def personValue_def onChange_def
        formState_def rawState_def)
  show ?thesis
    using number_onChange_cases [where propSchema = "leaf ''number''" and H = js
        and p = personProps and currentValue = "JNum (Dec 36 0)" and path = "[''age'']"
        and fieldRequired = False and s = formState and val = "''abc''"]
      number_onChange_cases [where H = js and p = strictProps and path = "[''age'']"
        and fieldRequired = True and s = formState]
      nan c1 c2
    by (simp add: leaf_def isNaN_def)
qed

text \<open>
  C1, as the specification has it, says that empty text in a required number field
  commits nothing. It commits \<open>0\<close>.
\<close>

theorem number_required_empty_counterexample:
  "calls formState = [] \<and>
   calls (number_onChange js strictProps [''age''] True [] formState) =
     [(0, JObj [(''name'', JStr ''Ada''), (''age'', JNum (Dec 0 0))])]"
  by (simp add: number_onChange_def Number_def trim_def trimEnd_def isNaN_def
      handleFieldChange_def js_def strictProps_def personValue_def onChange_def
      formState_def rawState_def)

subsection \<open>The debounce\<close>

lemma timerInv_cases:
  "timerInv s \<longleftrightarrow>
     0 < nextTimer s \<and>
     (timers s = [] \<or>
      (\<exists>h due str. timers s = [(h, due, str)] \<and> timeoutRef s = Some h \<and> h \<noteq> 0))"
  by (auto simp: timerInv_def split: list.splits)

lemma timerInv_afterCancel: "timerInv s \<Longrightarrow> afterCancel s = []"
  by (auto simp: timerInv_cases afterCancel_def split: option.splits)

lemma timerInv_debounced:
  assumes "timerInv s"
  shows "timerInv (debouncedUpdateParent str s)"
    and "timers (debouncedUpdateParent str s) = [(nextTimer s, now s + 300, str)]"
  using assms timerInv_afterCancel [OF assms]
  by (simp_all add: debouncedUpdateParent_eq timerInv_cases)

lemma timerInv_same:
  "timers t = timers s \<Longrightarrow> nextTimer t = nextTimer s \<Longrightarrow> timeoutRef t = timeoutRef s \<Longrightarrow>
   timerInv s \<Longrightarrow> timerInv t"
  by (simp add: timerInv_cases)

lemma timerCallback_fields:
  "timers (timerCallback H str s) = timers s"
  "nextTimer (timerCallback H str s) = nextTimer s"
  "timeoutRef (timerCallback H str s) = timeoutRef s"
  "now (timerCallback H str s) = now s"
  "mounted (timerCallback H str s) = mounted s"
  "isJsonMode (timerCallback H str s) = isJsonMode s"
  by (simp_all add: timerCallback_def onChange_def setJsonError_def split: sum.splits)

lemma modeEffect_fields:
  "timers (modeEffect p s) = timers s"
  "nextTimer (modeEffect p s) = nextTimer s"
  "timeoutRef (modeEffect p s) = timeoutRef s"
  "now (modeEffect p s) = now s"
  "calls (modeEffect p s) = calls s"
  "mounted (modeEffect p s) = mounted s"
  by (simp_all add: modeEffect_def setIsJsonMode_def)

lemma modeEffect_raw: "isJsonMode s \<Longrightarrow> modeEffect p s = s"
  by (simp add: modeEffect_def)

lemma timerInv_elapse: "timerInv s \<Longrightarrow> timerInv (elapse H d s)"
proof -
  assume inv: "timerInv s"
  then consider "timers s = []"
    | h due str where "timers s = [(h, due, str)]" "timeoutRef s = Some h" "h \<noteq> 0"
    by (auto simp: timerInv_cases)
  then show ?thesis
  proof cases
    case 1
    with inv show ?thesis
      by (simp add: elapse_idle timerInv_cases)
  next
    case 2
    show ?thesis
    proof (cases "due \<le> now s + d")
      case True
      with 2 inv show ?thesis
        by (simp add: elapse_single timerInv_cases timerCallback_fields)
    next
      case False
      with 2 inv show ?thesis
        by (simp add: elapse_waiting timerInv_cases)
    qed
  qed
qed

lemma timerInv_step: "timerInv s \<Longrightarrow> timerInv (step H p ev s)"
proof (cases ev)
  case (Edit t)
  assume "timerInv s"
  then have "timerInv (editor_onChange t s)"
    unfolding editor_onChange_def
    by (intro timerInv_debounced(1)) (simp add: timerInv_cases setRawJsonValue_def)
  then have "timerInv (modeEffect p (editor_onChange t s))"
    by (rule timerInv_same [rotated 3]) (simp_all add: modeEffect_fields)
  with \<open>timerInv s\<close> Edit show ?thesis
    by (simp add: step_def)
next
  case ClickFormat
  assume inv: "timerInv s"
  have "timerInv (formatJson H s)"
  proof (cases "trim (rawJsonValue s) = []")
    case True
    with inv show ?thesis by (simp add: formatJson_def)
  next
    case False
    show ?thesis
    proof (cases "JSON_parse H (trim (rawJsonValue s))")
      case (Inl err)
      with False inv show ?thesis
        by (simp add: formatJson_def Let_def setJsonError_def timerInv_cases)
    next
      case (Inr v)
      have "timerInv (setRawJsonValue (JSON_stringify H v 2) s)"
        using inv by (simp add: timerInv_cases setRawJsonValue_def)
      then have "timerInv (debouncedUpdateParent (JSON_stringify H v 2)
          (setRawJsonValue (JSON_stringify H v 2) s))"
        by (rule timerInv_debounced(1))
      then show ?thesis
        using False Inr by (simp add: formatJson_def Let_def setJsonError_def timerInv_cases)
    qed
  qed
  then have "timerInv (modeEffect p (formatJson H s))"
    by (rule timerInv_same [rotated 3]) (simp_all add: modeEffect_fields)
  with inv ClickFormat show ?thesis
    by (simp add: step_def)
next
  case ClickSwitch
  assume inv: "timerInv s"
  then have "timerInv (handleSwitchToFormMode H p s)"
    by (simp add: handleSwitchToFormMode_def timerInv_cases onChange_def setIsJsonMode_def
        setJsonError_def setRawJsonValue_def split: sum.splits)
  then have "timerInv (modeEffect p (handleSwitchToFormMode H p s))"
    by (rule timerInv_same [rotated 3]) (simp_all add: modeEffect_fields)
  with inv ClickSwitch show ?thesis
    by (simp add: step_def)
next
  case (Commit path v)
  assume inv: "timerInv s"
  then have "timerInv (handleFieldChange H p path v s)"
    by (simp add: handleFieldChange_def timerInv_cases onChange_def console_error_def
        split: sum.splits)
  then have "timerInv (modeEffect p (handleFieldChange H p path v s))"
    by (rule timerInv_same [rotated 3]) (simp_all add: modeEffect_fields)
  with inv Commit show ?thesis
    by (simp add: step_def)
next
  case (NestedEdit path t)
  assume inv: "timerInv s"
  then have "timerInv (nested_onChange H p path t s)"
    by (simp add: nested_onChange_def handleFieldChange_def timerInv_cases onChange_def
        console_error_def setJsonError_def split: sum.splits)
  then have "timerInv (modeEffect p (nested_onChange H p path t s))"
    by (rule timerInv_same [rotated 3]) (simp_all add: modeEffect_fields)
  with inv NestedEdit show ?thesis
    by (simp add: step_def)
next
  case (Elapse d)
  assume inv: "timerInv s"
  then have e: "timerInv (elapse H d s)"
    by (rule timerInv_elapse)
  then have "timerInv (modeEffect p (elapse H d s))"
    by (rule timerInv_same [rotated 3]) (simp_all add: modeEffect_fields)
  with e Elapse show ?thesis
    by (simp add: step_def)
next
  case Unmount
  assume "timerInv s"
  with Unmount show ?thesis
    by (simp add: step_def unmount_def timerInv_cases)
qed

lemma run_Nil: "run H p [] s = s"
  by (simp add: run_def)

lemma run_Cons: "run H p (ev # evs) s = run H p evs (step H p ev s)"
  by (simp add: run_def)

lemma run_append: "run H p (evs @ evs2) s = run H p evs2 (run H p evs s)"
  by (simp add: run_def)

lemma timerInv_run: "timerInv s \<Longrightarrow> timerInv (run H p evs s)"
  by (induction evs arbitrary: s) (simp_all add: run_Nil run_Cons timerInv_step)

lemma timerInv_mount: "timerInv (mount H p)"
  by (simp add: mount_def modeEffect_def syncEffect_def initialState_def timerInv_cases
      setIsJsonMode_def setRawJsonValue_def)

lemma timerInv_length: "timerInv s \<Longrightarrow> length (timers s) \<le> 1"
  by (auto simp: timerInv_cases)


lemma step_Elapse_fields:
  "calls (step H p (Elapse d) s) = calls (elapse H d s)"
  "timers (step H p (Elapse d) s) = timers (elapse H d s)"
  "now (step H p (Elapse d) s) = now (elapse H d s)"
  by (simp_all add: step_def modeEffect_fields)

lemma elapses_idle:
  "timers s = [] \<Longrightarrow> calls (run H p (map Elapse ds) s) = calls s"
proof (induction ds arbitrary: s)
  case Nil
  show ?case by (simp add: run_Nil)
next
  case (Cons d ds)
  have "timers (step H p (Elapse d) s) = []" "calls (step H p (Elapse d) s) = calls s"
    using Cons.prems by (simp_all add: step_Elapse_fields elapse_idle)
  with Cons.IH [of "step H p (Elapse d) s"] show ?case
    by (simp add: run_Cons)
qed

lemma elapses_pending:
  "timers s = [(h, due, str)] \<Longrightarrow>
   \<exists>extra. calls (run H p (map Elapse ds) s) = calls s @ extra \<and> length extra \<le> 1 \<and>
     (\<forall>c \<in> set extra. due \<le> fst c \<and> JSON_parse H str = Inr (snd c))"
proof (induction ds arbitrary: s)
  case Nil
  show ?case by (simp add: run_Nil)
next
  case (Cons d ds)
  let ?s' = "step H p (Elapse d) s"
  show ?case
  proof (cases "due \<le> now s + d")
    case False
    then have "timers ?s' = [(h, due, str)]" "calls ?s' = calls s"
      using Cons.prems by (simp_all add: step_Elapse_fields elapse_waiting)
    with Cons.IH [of ?s'] show ?thesis
      by (simp add: run_Cons)
  next
    case True
    then have fired: "elapse H d s = timerCallback H str (s\<lparr>now := now s + d, timers := []\<rparr>)"
      using Cons.prems by (simp add: elapse_single)
    then have idle: "timers ?s' = []"
      by (simp add: step_Elapse_fields timerCallback_fields)
    have rest: "calls (run H p (map Elapse (d # ds)) s) = calls ?s'"
      using elapses_idle [OF idle] by (simp add: run_Cons)
    show ?thesis
    proof (cases "JSON_parse H str")
      case (Inl err)
      then have "calls ?s' = calls s"
        by (simp add: step_Elapse_fields fired timerCallback_def)
      with rest show ?thesis by simp
    next
      case (Inr v)
      then have "calls ?s' = calls s @ [(now s + d, v)]"
        by (simp add: step_Elapse_fields fired timerCallback_def onChange_def setJsonError_def)
      with rest True Inr show ?thesis by simp
    qed
  qed
qed

lemma two_edits:
  assumes inv: "timerInv s" and m: "mounted s" and raw: "isJsonMode s" and gap: "gap < 300"
  shows "timers (run H p [Edit t1, Elapse gap, Edit t2] s) =
           [(Suc (nextTimer s), now s + gap + 300, t2)]"
    and "calls (run H p [Edit t1, Elapse gap, Edit t2] s) = calls s"
    and "now (run H p [Edit t1, Elapse gap, Edit t2] s) = now s + gap"
proof -
  let ?a = "debouncedUpdateParent t1 (setRawJsonValue t1 s)"
  have inv0: "timerInv (setRawJsonValue t1 s)"
    using inv by (simp add: timerInv_cases setRawJsonValue_def)
  have a_step: "step H p (Edit t1) s = ?a"
    using m raw
    by (simp add: step_def editor_onChange_def modeEffect_raw debouncedUpdateParent_eq
        setRawJsonValue_def)
  have a_inv: "timerInv ?a"
    and a_timers: "timers ?a = [(nextTimer s, now s + 300, t1)]"
    using timerInv_debounced [OF inv0, of t1] by (simp_all add: setRawJsonValue_def)
  have a_rest: "calls ?a = calls s" "now ?a = now s" "mounted ?a" "isJsonMode ?a"
      "nextTimer ?a = Suc (nextTimer s)"
    using m raw by (simp_all add: debouncedUpdateParent_eq setRawJsonValue_def)
  let ?b = "?a\<lparr>now := now s + gap\<rparr>"
  have b_step: "step H p (Elapse gap) ?a = ?b"
    using gap a_rest a_timers
    by (simp add: step_def elapse_waiting [where h = "nextTimer s" and due = "now s + 300"
          and str = t1] modeEffect_raw)
  have b_inv: "timerInv ?b"
    using a_inv by (simp add: timerInv_cases)
  have b_rest: "calls ?b = calls s" "now ?b = now s + gap" "mounted ?b" "isJsonMode ?b"
      "nextTimer ?b = Suc (nextTimer s)"
    using a_rest by simp_all
  let ?c = "debouncedUpdateParent t2 (setRawJsonValue t2 ?b)"
  have inv1: "timerInv (setRawJsonValue t2 ?b)"
    using b_inv by (simp add: timerInv_cases setRawJsonValue_def)
  have c_step: "step H p (Edit t2) ?b = ?c"
    using b_rest
    by (simp add: step_def editor_onChange_def modeEffect_raw debouncedUpdateParent_eq
        setRawJsonValue_def)
  have c_timers: "timers ?c = [(Suc (nextTimer s), now s + gap + 300, t2)]"
    using timerInv_debounced(2) [OF inv1, of t2] b_rest by (simp add: setRawJsonValue_def)
  have c_rest: "calls ?c = calls s" "now ?c = now s + gap"
    using b_rest by (simp_all add: debouncedUpdateParent_eq setRawJsonValue_def)
  have run3: "run H p [Edit t1, Elapse gap, Edit t2] s = ?c"
    by (simp only: run_Cons run_Nil a_step b_step c_step)
  show "timers (run H p [Edit t1, Elapse gap, Edit t2] s) =
           [(Suc (nextTimer s), now s + gap + 300, t2)]"
    and "calls (run H p [Edit t1, Elapse gap, Edit t2] s) = calls s"
    and "now (run H p [Edit t1, Elapse gap, Edit t2] s) = now s + gap"
    unfolding run3 using c_timers c_rest by simp_all
qed

text \<open>
  C2. A call of the debounced update schedules a parse 300 ms ahead and cancels the timer
  that \<open>timeoutRef\<close> holds; in every state an instance can reach that leaves the new
  timer as the only one, and no reachable state has more than one pending timer. So
  when two edits are less than 300 ms apart (100 ms, say) and only time passes
  afterwards, the owner receives at most one update from them; it is the parse of the
  later text, and it arrives no earlier than 300 ms after the later edit.
\<close>

theorem debounce_last_edit_wins:
  "timers (debouncedUpdateParent str s) = afterCancel s @ [(nextTimer s, now s + 300, str)] \<and>
   timeoutRef (debouncedUpdateParent str s) = Some (nextTimer s) \<and>
   timers (debouncedUpdateParent str (run H p evs (mount H p))) =
     [(nextTimer (run H p evs (mount H p)), now (run H p evs (mount H p)) + 300, str)] \<and>
   length (timers (run H p evs (mount H p))) \<le> 1 \<and>
   (s0 = run H p evs (mount H p) \<and> mounted s0 \<and> isJsonMode s0 \<and> gap < 300 \<longrightarrow>
      (\<exists>extra.
         calls (run H p ([Edit t1, Elapse gap, Edit t2] @ map Elapse ds) s0) = calls s0 @ extra \<and>
         length extra \<le> 1 \<and>
         (\<forall>c \<in> set extra. now s0 + gap + 300 \<le> fst c \<and> JSON_parse H t2 = Inr (snd c))) \<and>
      calls (run H p [Edit t1, Elapse gap, Edit t2, Elapse d] s0) =
        calls s0 @
        (if d < 300 then []
         else (case JSON_parse H t2 of Inr v \<Rightarrow> [(now s0 + gap + d, v)] | Inl err \<Rightarrow> [])))"
proof -
  have sched: "timers (debouncedUpdateParent str s) =
      afterCancel s @ [(nextTimer s, now s + 300, str)]"
    "timeoutRef (debouncedUpdateParent str s) = Some (nextTimer s)"
    by (simp_all add: debouncedUpdateParent_eq)
  have reach: "timerInv (run H p evs (mount H p))"
    by (intro timerInv_run timerInv_mount)
  have only: "timers (debouncedUpdateParent str (run H p evs (mount H p))) =
     [(nextTimer (run H p evs (mount H p)), now (run H p evs (mount H p)) + 300, str)]"
    using reach by (rule timerInv_debounced(2))
  have one: "length (timers (run H p evs (mount H p))) \<le> 1"
    using reach by (rule timerInv_length)
  have pair: "(\<exists>extra.
         calls (run H p ([Edit t1, Elapse gap, Edit t2] @ map Elapse ds) s0) = calls s0 @ extra \<and>
         length extra \<le> 1 \<and>
         (\<forall>c \<in> set extra. now s0 + gap + 300 \<le> fst c \<and> JSON_parse H t2 = Inr (snd c))) \<and>
      calls (run H p [Edit t1, Elapse gap, Edit t2, Elapse d] s0) =
        calls s0 @
        (if d < 300 then []
         else (case JSON_parse H t2 of Inr v \<Rightarrow> [(now s0 + gap + d, v)] | Inl err \<Rightarrow> []))"
    if reach: "s0 = run H p evs (mount H p)" and m: "mounted s0" and raw: "isJsonMode s0"
      and gap: "gap < 300"
  proof -
    have inv: "timerInv s0"
      unfolding reach by (intro timerInv_run timerInv_mount)
    let ?s2 = "run H p [Edit t1, Elapse gap, Edit t2] s0"
    note st = two_edits [OF inv m raw gap, of H p t1 t2]
    have many: "\<exists>extra.
         calls (run H p ([Edit t1, Elapse gap, Edit t2] @ map Elapse ds) s0) = calls s0 @ extra \<and>
         length extra \<le> 1 \<and>
         (\<forall>c \<in> set extra. now s0 + gap + 300 \<le> fst c \<and> JSON_parse H t2 = Inr (snd c))"
      using elapses_pending [OF st(1), of H p ds]
      unfolding run_append [of H p "[Edit t1, Elapse gap, Edit t2]" "map Elapse ds" s0] st(2) .
    have split: "run H p [Edit t1, Elapse gap, Edit t2, Elapse d] s0 = step H p (Elapse d) ?s2"
      by (simp add: run_def)
    have single: "calls (step H p (Elapse d) ?s2) =
        calls s0 @
        (if d < 300 then []
         else (case JSON_parse H t2 of Inr v \<Rightarrow> [(now s0 + gap + d, v)] | Inl err \<Rightarrow> []))"
    proof (cases "d < 300")
      case True
      then show ?thesis
        using st
        by (simp add: step_Elapse_fields
            elapse_waiting [where h = "Suc (nextTimer s0)" and due = "now s0 + gap + 300"
              and str = t2])
    next
      case False
      then show ?thesis
        using st
        by (simp add: step_Elapse_fields
            elapse_single [where h = "Suc (nextTimer s0)" and due = "now s0 + gap + 300"
              and str = t2]
            timerCallback_def onChange_def setJsonError_def split: sum.splits)
    qed
    show ?thesis
      using many single unfolding split by blast
  qed
  show ?thesis
    using sched only one pair by blast
qed


theorem debounce_last_edit_wins_witness:
  "mounted (mount js deepProps) \<and> isJsonMode (mount js deepProps) \<and> (100::nat) < 300 \<and>
   length (timers (run js deepProps [Edit ''[1'', Elapse 100, Edit ''[1]''] (mount js deepProps))) \<le> 1 \<and>
   calls (run js deepProps [Edit ''[1'', Elapse 100, Edit ''[1]'', Elapse 299] (mount js deepProps)) = [] \<and>
   calls (run js deepProps [Edit ''[1'', Elapse 100, Edit ''[1]'', Elapse 300] (mount js deepProps)) =
     [(400, JArr [JNum (Dec 1 0)])]"
proof -
  have st: "mounted (mount js deepProps) \<and> isJsonMode (mount js deepProps) \<and>
      now (mount js deepProps) = 0 \<and> calls (mount js deepProps) = []"
    by code_simp
  have parse: "JSON_parse js ''[1]'' = Inr (JArr [JNum (Dec 1 0)])"
    unfolding js_def by code_simp
  have start: "mount js deepProps = run js deepProps [] (mount js deepProps)"
    by (simp add: run_def)
  have gap: "(100::nat) < 300"
    by simp
  have one: "length (timers (run js deepProps [Edit ''[1'', Elapse 100, Edit ''[1]'']
      (mount js deepProps))) \<le> 1"
    using debounce_last_edit_wins [where H = js and p = deepProps
        and evs = "[Edit ''[1'', Elapse 100, Edit ''[1]'']"]
    by blast
  have early: "calls (run js deepProps [Edit ''[1'', Elapse 100, Edit ''[1]'', Elapse 299]
      (mount js deepProps)) = calls (mount js deepProps) @
        (if (299::nat) < 300 then []
         else (case JSON_parse js ''[1]'' of
                 Inr v \<Rightarrow> [(now (mount js deepProps) + 100 + 299, v)] | Inl err \<Rightarrow> []))"
    using debounce_last_edit_wins [where H = js and p = deepProps and evs = "[]"
        and ?s0.0 = "mount js deepProps" and gap = 100 and ?t1.0 = "''[1''" and ?t2.0 = "''[1]''"
        and d = 299] st start gap
    by blast
  have late: "calls (run js deepProps [Edit ''[1'', Elapse 100, Edit ''[1]'', Elapse 300]
      (mount js deepProps)) = calls (mount js deepProps) @
        (if (300::nat) < 300 then []
         else (case JSON_parse js ''[1]'' of
                 Inr v \<Rightarrow> [(now (mount js deepProps) + 100 + 300, v)] | Inl err \<Rightarrow> []))"
    using debounce_last_edit_wins [where H = js and p = deepProps and evs = "[]"
        and ?s0.0 = "mount js deepProps" and gap = 100 and ?t1.0 = "''[1''" and ?t2.0 = "''[1]''"
        and d = 300] st start gap
    by blast
  show ?thesis
    using st one early late by (simp add: parse)
qed

subsection \<open>Teardown\<close>

text \<open>
  C5, as the code has it. Teardown cancels nothing: the component registers no cleanup,
  so a pending timer stays pending, and when it is due its callback still parses the
  text and forwards the value to \<open>onChange\<close>.
\<close>

theorem unmount_leaves_timer:
  "timers (unmount s) = timers s \<and>
   step H p Unmount s = unmount s \<and>
   (timers s = [(h, due, str)] \<and> due \<le> now s + d \<and> JSON_parse H str = Inr v \<longrightarrow>
      calls (step H p (Elapse d) (step H p Unmount s)) = calls s @ [(now s + d, v)])"
proof -
  have keep: "timers (unmount s) = timers s" "step H p Unmount s = unmount s"
    by (simp_all add: unmount_def step_def)
  have fire: "calls (step H p (Elapse d) (step H p Unmount s)) = calls s @ [(now s + d, v)]"
    if "timers s = [(h, due, str)]" "due \<le> now s + d" "JSON_parse H str = Inr v"
  proof -
    have "timers (unmount s) = [(h, due, str)]" "due \<le> now (unmount s) + d"
      using that by (simp_all add: unmount_def)
    then have "elapse H d (unmount s) =
        timerCallback H str ((unmount s)\<lparr>now := now (unmount s) + d, timers := []\<rparr>)"
      by (rule elapse_single)
    then show ?thesis
      using that
      by (simp add: keep step_Elapse_fields timerCallback_def onChange_def setJsonError_def
          unmount_def)
  qed
  show ?thesis
    using keep fire by blast
qed

theorem unmount_leaves_timer_witness:
  "timers (unmount ((rawState ''[1]'')\<lparr>timers := [(1, 300, ''[1]'')], timeoutRef := Some 1\<rparr>)) =
     [(1, 300, ''[1]'')] \<and>
   calls (step js deepProps (Elapse 300)
     (step js deepProps Unmount
        ((rawState ''[1]'')\<lparr>timers := [(1, 300, ''[1]'')], timeoutRef := Some 1\<rparr>))) =
     [(300, JArr [JNum (Dec 1 0)])]"
proof -
  let ?s = "(rawState ''[1]'')\<lparr>timers := [(1, 300, ''[1]'')], timeoutRef := Some 1\<rparr>"
  have parse: "JSON_parse js ''[1]'' = Inr (JArr [JNum (Dec 1 0)])"
    unfolding js_def by code_simp
  have t: "timers ?s = [(1, 300, ''[1]'')]" and due: "300 \<le> now ?s + 300"
    and c: "calls ?s = []" and n: "now ?s = 0"
    by (simp_all add: rawState_def)
  have a: "timers (unmount ?s) = timers ?s"
    using unmount_leaves_timer [where s = ?s] by blast
  have b: "calls (step js deepProps (Elapse 300) (step js deepProps Unmount ?s)) =
      calls ?s @ [(now ?s + 300, JArr [JNum (Dec 1 0)])]"
    using unmount_leaves_timer [where s = ?s and H = js and p = deepProps and h = 1
        and due = 300 and str = "''[1]''" and d = 300 and v = "JArr [JNum (Dec 1 0)]"]
      parse t due
    by blast
  show ?thesis
    unfolding a b t c n by simp
qed

text \<open>
  C5, as the specification has it, says that nothing is forwarded after teardown. An
  edit followed by teardown is forwarded 300 ms later.
\<close>

theorem teardown_counterexample:
  "\<not> mounted (run js deepProps [Edit ''[1]'', Unmount] (mount js deepProps)) \<and>
   calls (run js deepProps [Edit ''[1]'', Unmount] (mount js deepProps)) = [] \<and>
   timers (run js deepProps [Edit ''[1]'', Unmount] (mount js deepProps)) = [(1, 300, ''[1]'')] \<and>
   calls (run js deepProps [Edit ''[1]'', Unmount, Elapse 300] (mount js deepProps)) =
     [(300, JArr [JNum (Dec 1 0)])]"
  by code_simp

end
